theory Spec2Isabelle
  imports Main "HOL-Library.Sublist"
begin


section \<open>Characters and strings of the C++ sources\<close>

text \<open>
  \<^verbatim>\<open>std::string\<close> is a sequence of bytes; it is modelled as \<^typ>\<open>string\<close>.
  The characters that have no printable literal are named by their code.
\<close>

definition backslash :: char where "backslash = CHR 0x5C"
definition newline :: char where "newline = CHR 0x0A"
definition carriage_return :: char where "carriage_return = CHR 0x0D"
definition tab :: char where "tab = CHR 0x09"
definition vtab :: char where "vtab = CHR 0x0B"
definition formfeed :: char where "formfeed = CHR 0x0C"
definition dquote :: char where "dquote = CHR 0x22"
definition squote :: char where "squote = CHR 0x27"

section \<open>ConfigManager: ParseKeyValue and EscapeValue (command\_parser.cpp)\<close>

text \<open>The characters removed by the trimming calls of ParseKeyValue: \<^verbatim>\<open>" \t"\<close>.\<close>

definition blank :: "char \<Rightarrow> bool" where
  "blank c = (c = CHR '' '' \<or> c = tab)"

text \<open>
  \<^verbatim>\<open>s.erase(0, s.find_first_not_of(" \t"))\<close>: the leading blanks go; when the whole string is
  blank, \<^verbatim>\<open>find_first_not_of\<close> is \<^verbatim>\<open>npos\<close> and everything is erased.
\<close>

definition erase_leading :: "string \<Rightarrow> string" where
  "erase_leading s = dropWhile blank s"

text \<open>
  \<^verbatim>\<open>s.erase(s.find_last_not_of(" \t") + 1)\<close>: the trailing blanks go; when the whole string is
  blank, \<^verbatim>\<open>npos + 1\<close> wraps to 0 and everything is erased.
\<close>

definition erase_trailing :: "string \<Rightarrow> string" where
  "erase_trailing s = rev (dropWhile blank (rev s))"

text \<open>The \<^verbatim>\<open>switch (next)\<close> of ParseKeyValue, on the character after a backslash.\<close>

definition unescape_char :: "char \<Rightarrow> char" where
  "unescape_char next =
     (if next = CHR ''n'' then newline
      else if next = CHR ''r'' then carriage_return
      else if next = CHR ''t'' then tab
      else if next = backslash then backslash
      else if next = dquote then dquote
      else if next = squote then squote
      else if next = CHR ''='' then CHR ''=''
      else next)"

text \<open>
  The \<^verbatim>\<open>while (i < value.length())\<close> loop of ParseKeyValue: a backslash that has a successor
  consumes two characters, anything else (also a backslash at the very end) one.
\<close>

fun unescape :: "string \<Rightarrow> string" where
  "unescape [] = []"
| "unescape [c] = [c]"
| "unescape (c # next # rest) =
     (if c = backslash then unescape_char next # unescape rest
      else c # unescape (next # rest))"

text \<open>\<^verbatim>\<open>line.find('=')\<close>: the index of the first \<^verbatim>\<open>=\<close>, or \<^verbatim>\<open>npos\<close> (None).\<close>

fun find_char :: "char \<Rightarrow> string \<Rightarrow> nat option" where
  "find_char c [] = None"
| "find_char c (x # xs) =
     (if x = c then Some 0 else map_option Suc (find_char c xs))"

text \<open>
  ParseKeyValue returns false (None) when the line has no \<^verbatim>\<open>=\<close>; otherwise true, with the
  key and the value in its two reference parameters (Some of the pair).
\<close>

definition ParseKeyValue :: "string \<Rightarrow> (string \<times> string) option" where
  "ParseKeyValue line =
     (case find_char (CHR ''='') line of
        None \<Rightarrow> None
      | Some pos \<Rightarrow>
          (let key = take pos line;
               val = drop (pos + 1) line;
               key = erase_trailing (erase_leading key);
               val = erase_trailing (erase_leading val)
           in Some (key, unescape val)))"

text \<open>The \<^verbatim>\<open>switch (c)\<close> of EscapeValue.\<close>

definition escape_char :: "char \<Rightarrow> string" where
  "escape_char c =
     (if c = newline then [backslash, CHR ''n'']
      else if c = carriage_return then [backslash, CHR ''r'']
      else if c = tab then [backslash, CHR ''t'']
      else if c = backslash then [backslash, backslash]
      else if c = dquote then [backslash, dquote]
      else if c = squote then [backslash, squote]
      else if c = CHR ''='' then [backslash, CHR ''='']
      else [c])"

fun EscapeValue :: "string \<Rightarrow> string" where
  "EscapeValue [] = []"
| "EscapeValue (c # cs) = escape_char c @ EscapeValue cs"

text \<open>No leading and no trailing space or tab.\<close>

definition trimmed :: "string \<Rightarrow> bool" where
  "trimmed s = (s = [] \<or> (\<not> blank (hd s) \<and> \<not> blank (last s)))"

section \<open>NvidiaGPUChecker::IsGPUMeetsMinimumRequirement (system\_checker.cpp)\<close>

subsection \<open>The C library on characters\<close>

text \<open>\<^verbatim>\<open>::toupper\<close> in the C locale: the letters a to z move to A to Z, every other byte stays.\<close>

definition toupper :: "char \<Rightarrow> char" where
  "toupper c =
     (let n = (of_char c :: nat)
      in if 97 \<le> n \<and> n \<le> 122 then char_of (n - 32) else c)"

text \<open>\<^verbatim>\<open>::isspace\<close> and the class \<^verbatim>\<open>\s\<close>: space, \<^verbatim>\<open>\t \n \v \f \r\<close>.\<close>

definition is_space :: "char \<Rightarrow> bool" where
  "is_space c =
     (c = CHR '' '' \<or> c = tab \<or> c = newline \<or> c = vtab \<or> c = formfeed
      \<or> c = carriage_return)"

text \<open>The class \<^verbatim>\<open>\d\<close>: the ten decimal digits.\<close>

definition is_digit :: "char \<Rightarrow> bool" where
  "is_digit c = (c \<in> set ''0123456789'')"

definition digit_value :: "char \<Rightarrow> int" where
  "digit_value c = int (of_char c) - 48"

text \<open>\<^verbatim>\<open>s.find(sub) != std::string::npos\<close>.\<close>

fun has_substr :: "string \<Rightarrow> string \<Rightarrow> bool" where
  "has_substr [] sub = (sub = [])"
| "has_substr (c # cs) sub = (prefix sub (c # cs) \<or> has_substr cs sub)"

subsection \<open>std::stoi\<close>

text \<open>
  \<^verbatim>\<open>std::stoi(str)\<close> is \<^verbatim>\<open>strtol\<close> in base 10 on a 32-bit \<^verbatim>\<open>int\<close>: leading white space is
  skipped, one sign is read, then the longest run of digits. No digit at all throws
  \<^verbatim>\<open>std::invalid_argument\<close>; a value outside the range of \<^verbatim>\<open>int\<close> throws
  \<^verbatim>\<open>std::out_of_range\<close>. Characters after the digits are ignored.
\<close>

datatype stoi_error = invalid_argument | out_of_range

fun decimal :: "int \<Rightarrow> string \<Rightarrow> int" where
  "decimal acc [] = acc"
| "decimal acc (c # cs) = decimal (acc * 10 + digit_value c) cs"

definition INT_MAX :: int where "INT_MAX = 2147483647"
definition INT_MIN :: int where "INT_MIN = - 2147483648"

definition stoi :: "string \<Rightarrow> stoi_error + int" where
  "stoi str =
     (let s1 = dropWhile is_space str;
          neg = (s1 \<noteq> [] \<and> hd s1 = CHR ''-'');
          s2 = (if s1 \<noteq> [] \<and> (hd s1 = CHR ''-'' \<or> hd s1 = CHR ''+'') then tl s1 else s1);
          ds = takeWhile is_digit s2;
          v = (if neg then - decimal 0 ds else decimal 0 ds)
      in if ds = [] then Inl invalid_argument
         else if v < INT_MIN \<or> INT_MAX < v then Inl out_of_range
         else Inr v)"

subsection \<open>The regular expression\<close>

text \<open>
  \<^verbatim>\<open>RTX\s*(\d+)(\d{2,3})(?:\s*(TI|SUPER))?\<close> with \<^verbatim>\<open>icase\<close>, searched by
  \<^verbatim>\<open>std::regex_search\<close> (ECMAScript: the leftmost start that matches, the quantifiers
  greedy with backtracking).

  At one start position: the three letters, then all the white space, then the run of digits.
  \<^verbatim>\<open>\d+\<close> first takes the whole run and gives digits back one at a time until
  \<^verbatim>\<open>\d{2,3}\<close> finds its two, so a run of \<open>n \<ge> 3\<close> digits is split into the first
  \<open>n - 2\<close> (group 1) and the last two (group 2); a shorter run does not match. The optional
  group then takes the white space and \<^verbatim>\<open>TI\<close>, else \<^verbatim>\<open>SUPER\<close>, when they follow, and
  is empty otherwise (\<^verbatim>\<open>match[3].str()\<close> is then the empty string).
\<close>

definition starts_with_icase :: "string \<Rightarrow> string \<Rightarrow> bool" where
  "starts_with_icase pat s = (length pat \<le> length s \<and> map toupper (take (length pat) s) = pat)"

definition match_suffix :: "string \<Rightarrow> string" where
  "match_suffix s =
     (let r = dropWhile is_space s
      in if starts_with_icase ''TI'' r then take 2 r
         else if starts_with_icase ''SUPER'' r then take 5 r
         else [])"

definition match_rtx_at :: "string \<Rightarrow> (string \<times> string \<times> string) option" where
  "match_rtx_at s =
     (if starts_with_icase ''RTX'' s then
        (let r = dropWhile is_space (drop 3 s);
             ds = takeWhile is_digit r
         in if 3 \<le> length ds
            then Some (take (length ds - 2) ds, drop (length ds - 2) ds,
                       match_suffix (dropWhile is_digit r))
            else None)
      else None)"

fun regex_search_rtx :: "string \<Rightarrow> (string \<times> string \<times> string) option" where
  "regex_search_rtx [] = None"
| "regex_search_rtx (c # cs) =
     (case match_rtx_at (c # cs) of
        Some m \<Rightarrow> Some m
      | None \<Rightarrow> regex_search_rtx cs)"

subsection \<open>The classification\<close>

definition high_end_cards :: "string list" where
  "high_end_cards =
     [''TESLA'', ''QUADRO RTX'', ''RTX A'', ''A100'', ''H100'',
      ''A40'', ''A30'', ''A10'', ''V100'', ''P100'']"

text \<open>
  The chain of \<^verbatim>\<open>if\<close>s on the parsed numbers. \<open>Some b\<close> is \<^verbatim>\<open>return b\<close>; \<open>None\<close> means
  that no branch returned and control leaves the GeForce block.
\<close>

definition rtx_decision :: "int \<Rightarrow> int \<Rightarrow> string \<Rightarrow> bool option" where
  "rtx_decision series model sfx =
     (if series \<ge> 50 then Some True
      else if series = 40 then (if model \<ge> 60 then Some True else Some False)
      else if series = 30 then
        (if model > 60 then Some True
         else if model = 60 then (if has_substr sfx ''TI'' then Some True else Some False)
         else Some False)
      else if series \<le> 20 then Some False
      else None)"

text \<open>
  The GeForce block: \<open>Inl e\<close> when \<^verbatim>\<open>std::stoi\<close> throws (nothing in the function catches
  it), \<open>Inr (Some b)\<close> when the block returns \<open>b\<close>, \<open>Inr None\<close> when control goes on to
  the GTX test.
\<close>

definition geforce_block :: "string \<Rightarrow> stoi_error + bool option" where
  "geforce_block gpu_upper =
     (if has_substr gpu_upper ''GEFORCE'' \<or> has_substr gpu_upper ''RTX'' then
        (case regex_search_rtx gpu_upper of
           None \<Rightarrow> Inr None
         | Some (g1, g2, g3) \<Rightarrow>
             (case stoi g1 of
                Inl e \<Rightarrow> Inl e
              | Inr series \<Rightarrow>
                  (case stoi g2 of
                     Inl e \<Rightarrow> Inl e
                   | Inr model \<Rightarrow> Inr (rtx_decision series model g3))))
      else Inr None)"

definition IsGPUMeetsMinimumRequirement :: "string \<Rightarrow> stoi_error + bool" where
  "IsGPUMeetsMinimumRequirement gpu_name =
     (let gpu_upper = map toupper gpu_name
      in if list_ex (has_substr gpu_upper) high_end_cards then Inr True
         else
           (case geforce_block gpu_upper of
              Inl e \<Rightarrow> Inl e
            | Inr (Some b) \<Rightarrow> Inr b
            | Inr None \<Rightarrow>
                (if has_substr gpu_upper ''GTX'' then Inr False else Inr False)))"

text \<open>
  The policy in the words of the specification: series at least 50; or series 40 and model at
  least 60; or series 30 and model above 60, or model 60 with a suffix that contains TI.
\<close>

definition rtx_policy :: "int \<Rightarrow> int \<Rightarrow> string \<Rightarrow> bool" where
  "rtx_policy series model sfx =
     (series \<ge> 50 \<or> (series = 40 \<and> model \<ge> 60)
      \<or> (series = 30 \<and> (model > 60 \<or> (model = 60 \<and> has_substr sfx ''TI''))))"

text \<open>
  A name reaches the GeForce/RTX step when, in upper case, it has no substring of the
  allowlist and contains GEFORCE or RTX.
\<close>

definition reaches_rtx_step :: "string \<Rightarrow> bool" where
  "reaches_rtx_step gpu_name =
     (let gpu_upper = map toupper gpu_name
      in \<not> list_ex (has_substr gpu_upper) high_end_cards
         \<and> (has_substr gpu_upper ''GEFORCE'' \<or> has_substr gpu_upper ''RTX''))"

section \<open>Component results\<close>

text \<open>
  The enumerations and the result structures, as the sources under \<^verbatim>\<open>src/\<close> use them
  (their declarations are in \<^verbatim>\<open>environment_installer.h\<close>, which is not among the sources;
  the enumerators listed are the ones the sources name).
\<close>

datatype InstallationStatus = kSuccess | kSkipped | kFailed | kInProgress | kWarning

datatype EnvironmentComponent =
  kOSVersion | kNvidiaGPU | kNvidiaDriver | kBIOSVirtualization | kPipUpgrade | kParallaxProject

record ComponentResult =
  component :: EnvironmentComponent
  status :: InstallationStatus
  message :: string
  failure_code :: int

record EnvironmentResult =
  component_results :: "ComponentResult list"
  reboot_required :: bool
  overall_message :: string

text \<open>
  Modelled from the spec: the four result constructors of \<^verbatim>\<open>BaseEnvironmentComponent\<close>
  (\<^verbatim>\<open>CreateSuccessResult\<close>, \<^verbatim>\<open>CreateSkippedResult\<close>, \<^verbatim>\<open>CreateWarningResult\<close>,
  \<^verbatim>\<open>CreateFailureResult\<close>), whose bodies are not among the sources. Each builds the
  ComponentResult of the calling component with the status its name says, the message given
  and, for a failure, the failure code given (0 otherwise). The sources rely on this:
  \<^verbatim>\<open>ParallaxProjectInstaller::Install\<close> tests the result of ExecuteCommandSequence, built by
  \<^verbatim>\<open>CreateSuccessResult\<close>, against \<^verbatim>\<open>InstallationStatus::kSuccess\<close>.
\<close>

definition CreateSuccessResult :: "EnvironmentComponent \<Rightarrow> string \<Rightarrow> ComponentResult" where
  "CreateSuccessResult cty msg =
     \<lparr>component = cty, status = kSuccess, message = msg, failure_code = 0\<rparr>"

definition CreateSkippedResult :: "EnvironmentComponent \<Rightarrow> string \<Rightarrow> ComponentResult" where
  "CreateSkippedResult cty msg =
     \<lparr>component = cty, status = kSkipped, message = msg, failure_code = 0\<rparr>"

definition CreateWarningResult :: "EnvironmentComponent \<Rightarrow> string \<Rightarrow> ComponentResult" where
  "CreateWarningResult cty msg =
     \<lparr>component = cty, status = kWarning, message = msg, failure_code = 0\<rparr>"

definition CreateFailureResult ::
  "EnvironmentComponent \<Rightarrow> string \<Rightarrow> int \<Rightarrow> ComponentResult" where
  "CreateFailureResult cty msg code =
     \<lparr>component = cty, status = kFailed, message = msg, failure_code = code\<rparr>"

section \<open>CheckCommand::CheckAllComponents (check\_command.cpp)\<close>

text \<open>
  The loop over \<^verbatim>\<open>result.component\_results\<close>, on the pair of flags
  \<open>(has_failures, has_warnings)\<close>: a failed result sets the first flag and leaves the loop
  (\<^verbatim>\<open>break\<close>), a warning sets the second.
\<close>

fun scan_results :: "ComponentResult list \<Rightarrow> bool \<times> bool \<Rightarrow> bool \<times> bool" where
  "scan_results [] flags = flags"
| "scan_results (comp_result # rest) (has_failures, has_warnings) =
     (if status comp_result = kFailed then (True, has_warnings)
      else if status comp_result = kWarning then scan_results rest (has_failures, True)
      else scan_results rest (has_failures, has_warnings))"

text \<open>
  The part of CheckAllComponents after \<^verbatim>\<open>installer.CheckEnvironment\<close> has returned
  \<open>result\<close>: the exit code. 2 is the reboot verdict, 1 failure, 3 warning, 0 success.
\<close>

definition CheckAllComponents :: "EnvironmentResult \<Rightarrow> int" where
  "CheckAllComponents result =
     (case scan_results (component_results result) (False, False) of
        (has_failures, has_warnings) \<Rightarrow>
          if reboot_required result then 2
          else if has_failures then 1
          else if has_warnings then 3
          else 0)"

section \<open>External commands\<close>

text \<open>
  Every component reaches the machine through a command: \<^verbatim>\<open>executor_->ExecuteWSL(cmd, timeout)\<close>
  (the time-out is optional), \<^verbatim>\<open>executor_->ExecutePowerShell(cmd)\<close>,
  \<^verbatim>\<open>parallax::utils::ExecCommandEx(cmd, timeout, ...)\<close> and \<^verbatim>\<open>WSLProcess::Execute(cmd)\<close>.
  The machine is a state \<open>'w\<close> and a function that answers a call in a state with an exit
  code, the text written to standard output, and the next state. The model keeps the list of
  the calls made, in order.
\<close>

datatype call =
  WSL string "int option"
| PowerShell string
| HostCommand string int
| WSLProcess string

type_synonym 'w host = "call \<Rightarrow> 'w \<Rightarrow> (int \<times> string) \<times> 'w"

type_synonym 'w machine = "call list \<times> 'w"

definition exec :: "'w host \<Rightarrow> call \<Rightarrow> 'w machine \<Rightarrow> (int \<times> string) \<times> 'w machine" where
  "exec orc c m =
     (case m of (tr, w) \<Rightarrow>
        (case orc c w of (r, w') \<Rightarrow> (r, (tr @ [c], w'))))"

record ExecutionContext =
  GetProxyUrl :: string
  GetUbuntuVersion :: string

section \<open>PipUpgradeManager (software installer)\<close>

definition IsPipUpToDate :: "'w host \<Rightarrow> 'w machine \<Rightarrow> bool \<times> 'w machine" where
  "IsPipUpToDate orc m =
     (case exec orc (WSL ''pip --version'' None) m of
        ((pip_code, pip_output), m') \<Rightarrow> (pip_code = 0 \<and> pip_output \<noteq> [], m'))"

definition PipUpgradeManager_Check :: "'w host \<Rightarrow> 'w machine \<Rightarrow> ComponentResult \<times> 'w machine" where
  "PipUpgradeManager_Check orc m =
     (case IsPipUpToDate orc m of
        (pip_available, m') \<Rightarrow>
          (if pip_available then CreateSkippedResult kPipUpgrade ''pip is available''
           else CreateFailureResult kPipUpgrade ''pip is not installed'' 24, m'))"

definition install_pip_cmd :: "string \<Rightarrow> string" where
  "install_pip_cmd proxy_url =
     (if proxy_url = [] then ''apt-get install -y python3-pip''
      else ''apt-get -o Acquire::http::proxy='' @ [dquote] @ proxy_url
           @ [dquote] @ '' -o Acquire::https::proxy='' @ [dquote] @ proxy_url
           @ [dquote] @ '' install -y python3-pip'')"

definition upgrade_cmd :: "string \<Rightarrow> string" where
  "upgrade_cmd proxy_url =
     (if proxy_url \<noteq> [] then
        ''pip install --proxy '' @ proxy_url
        @ '' --upgrade pip --break-system-packages --ignore-installed''
      else ''pip install --upgrade pip --break-system-packages --ignore-installed'')"

text \<open>
  The first half of Install: \<open>Some r\<close> is the early \<^verbatim>\<open>return r\<close> when installing
  python3-pip fails, \<open>None\<close> goes on to the upgrade.
\<close>

definition install_pip_if_missing ::
  "'w host \<Rightarrow> string \<Rightarrow> 'w machine \<Rightarrow> ComponentResult option \<times> 'w machine" where
  "install_pip_if_missing orc proxy_url m =
     (case IsPipUpToDate orc m of
        (up, m1) \<Rightarrow>
          if \<not> up then
            (case exec orc (WSL (install_pip_cmd proxy_url) (Some 300)) m1 of
               ((install_code, install_output), m2) \<Rightarrow>
                 if install_code \<noteq> 0
                 then (Some (CreateFailureResult kPipUpgrade
                               (''Failed to install python3-pip: '' @ install_output) 24), m2)
                 else (None, m2))
          else (None, m1))"

definition PipUpgradeManager_Install ::
  "'w host \<Rightarrow> ExecutionContext \<Rightarrow> 'w machine \<Rightarrow> ComponentResult \<times> 'w machine" where
  "PipUpgradeManager_Install orc ctx m =
     (case install_pip_if_missing orc (GetProxyUrl ctx) m of
        (Some r, m') \<Rightarrow> (r, m')
      | (None, m') \<Rightarrow>
          (case exec orc (WSL (upgrade_cmd (GetProxyUrl ctx)) (Some 300)) m' of
             ((upgrade_code, upgrade_output), m'') \<Rightarrow>
               (if upgrade_code \<noteq> 0
                then CreateFailureResult kPipUpgrade
                       (''Failed to upgrade pip: '' @ upgrade_output) 24
                else CreateSuccessResult kPipUpgrade
                       ''pip installed and upgraded successfully'', m'')))"

section \<open>ParallaxProjectInstaller (software installer)\<close>

definition pip_list_cmd :: string where
  "pip_list_cmd =
     ''cd ~/parallax && [ -d ./venv ] && source ./venv/bin/activate && pip list | grep parallax''"

definition IsParallaxProjectInstalled :: "'w host \<Rightarrow> 'w machine \<Rightarrow> bool \<times> 'w machine" where
  "IsParallaxProjectInstalled orc m =
     (case exec orc (WSL pip_list_cmd None) m of
        ((check_code, check_output), m') \<Rightarrow> (check_code = 0 \<and> check_output \<noteq> [], m'))"

definition rev_parse_cmd :: string where
  "rev_parse_cmd = ''cd ~/parallax && git rev-parse --is-inside-work-tree 2>/dev/null''"

definition fetch_cmd :: "string \<Rightarrow> string" where
  "fetch_cmd proxy_url =
     (if proxy_url \<noteq> [] then ''cd ~/prakasa && ALL_PROXY='' @ proxy_url @ '' git fetch origin''
      else ''cd ~/prakasa && git fetch origin'')"

definition rev_list_cmd :: string where
  "rev_list_cmd = ''cd ~/prakasa && git rev-list HEAD...origin/main --count 2>/dev/null''"

text \<open>
  The \<^verbatim>\<open>try\<close> block of HasParallaxProjectGitUpdates on the output of the count command:
  white space is removed, \<^verbatim>\<open>std::stoi\<close> reads the number, and every exception is caught
  and answered with false.
\<close>

definition count_says_updates :: "int \<Rightarrow> string \<Rightarrow> bool" where
  "count_says_updates diff_code diff_output =
     (if diff_code = 0 \<and> diff_output \<noteq> [] then
        (let trimmed_output = filter (\<lambda>c. \<not> is_space c) diff_output
         in if trimmed_output \<noteq> [] then
              (case stoi trimmed_output of
                 Inl e \<Rightarrow> False
               | Inr update_count \<Rightarrow> update_count > 0)
            else False)
      else False)"

definition HasParallaxProjectGitUpdates ::
  "'w host \<Rightarrow> ExecutionContext \<Rightarrow> 'w machine \<Rightarrow> bool \<times> 'w machine" where
  "HasParallaxProjectGitUpdates orc ctx m =
     (case exec orc (WSL rev_parse_cmd (Some 30)) m of
        ((check_git_code, check_git_output), m1) \<Rightarrow>
          if check_git_code \<noteq> 0 then (False, m1)
          else
            (case exec orc (WSL (fetch_cmd (GetProxyUrl ctx)) (Some 60)) m1 of
               ((fetch_code, fetch_output), m2) \<Rightarrow>
                 if fetch_code \<noteq> 0 then (False, m2)
                 else
                   (case exec orc (WSL rev_list_cmd (Some 30)) m2 of
                      ((diff_code, diff_output), m3) \<Rightarrow>
                        (count_says_updates diff_code diff_output, m3))))"

definition ParallaxProjectInstaller_Check ::
  "'w host \<Rightarrow> ExecutionContext \<Rightarrow> 'w machine \<Rightarrow> ComponentResult \<times> 'w machine" where
  "ParallaxProjectInstaller_Check orc ctx m =
     (case IsParallaxProjectInstalled orc m of
        (is_installed, m1) \<Rightarrow>
          if is_installed then
            (case HasParallaxProjectGitUpdates orc ctx m1 of
               (has_updates, m2) \<Rightarrow>
                 (if has_updates
                  then CreateWarningResult kParallaxProject
                         ''Parallax project is installed but has git updates available''
                  else CreateSkippedResult kParallaxProject
                         ''Parallax project is already installed and up to date'', m2))
          else (CreateFailureResult kParallaxProject ''Parallax project is not installed'' 25, m1))"

subsection \<open>ExecuteCommandSequence\<close>

text \<open>A step: its name, the command, the time-out in seconds, and whether it runs with real-time output.\<close>

type_synonym step = "string \<times> string \<times> int \<times> bool"

text \<open>
  The call one step makes. \<^verbatim>\<open>parallax::utils::BuildWSLCommand\<close> is not among the sources;
  it is the parameter \<open>bld\<close>.
\<close>

definition step_call :: "(string \<Rightarrow> string \<Rightarrow> string) \<Rightarrow> ExecutionContext \<Rightarrow> step \<Rightarrow> call" where
  "step_call bld ctx st =
     (case st of (step_name, cmd, timeout, use_realtime) \<Rightarrow>
        if use_realtime then WSLProcess (bld (GetUbuntuVersion ctx) cmd)
        else WSL cmd (Some timeout))"

definition step_error_msg :: "step \<Rightarrow> string" where
  "step_error_msg st =
     (case st of (step_name, cmd, timeout, use_realtime) \<Rightarrow>
        ''Failed at step '' @ [squote] @ step_name @ [squote] @ '': '' @ cmd)"

fun ExecuteCommandSequence ::
  "'w host \<Rightarrow> (string \<Rightarrow> string \<Rightarrow> string) \<Rightarrow> ExecutionContext \<Rightarrow> step list
     \<Rightarrow> 'w machine \<Rightarrow> ComponentResult \<times> 'w machine" where
  "ExecuteCommandSequence orc bld ctx [] m =
     (CreateSuccessResult kParallaxProject ''Command sequence completed successfully'', m)"
| "ExecuteCommandSequence orc bld ctx (st # commands) m =
     (case exec orc (step_call bld ctx st) m of
        ((cmd_exit_code, output), m') \<Rightarrow>
          if cmd_exit_code \<noteq> 0
          then (CreateFailureResult kParallaxProject (step_error_msg st) 25, m')
          else ExecuteCommandSequence orc bld ctx commands m')"

subsection \<open>Install\<close>

definition pull_cmd :: "string \<Rightarrow> string" where
  "pull_cmd proxy_url =
     (if proxy_url \<noteq> [] then ''cd ~/prakasa && ALL_PROXY='' @ proxy_url @ '' git pull''
      else ''cd ~/prakasa && git pull'')"

definition clone_cmd :: "string \<Rightarrow> string \<Rightarrow> string" where
  "clone_cmd proxy_url repo_url =
     ''cd ~ && '' @ (if proxy_url \<noteq> [] then ''ALL_PROXY='' @ proxy_url @ '' '' else [])
     @ ''git clone '' @ repo_url"

definition install_venv_cmd :: "string \<Rightarrow> string" where
  "install_venv_cmd proxy_url =
     (if proxy_url \<noteq> [] then
        ''apt -o Acquire::http::proxy='' @ [dquote] @ proxy_url
        @ [dquote] @ '' -o Acquire::https::proxy='' @ [dquote] @ proxy_url
        @ [dquote] @ '' update && apt-get -o Acquire::http::proxy='' @ [dquote] @ proxy_url
        @ [dquote] @ '' -o Acquire::https::proxy='' @ [dquote] @ proxy_url
        @ [dquote] @ '' install -y python3-venv''
      else ''apt update && apt-get install -y python3-venv'')"

definition install_base_cmd :: "string \<Rightarrow> string" where
  "install_base_cmd proxy_url =
     (if proxy_url \<noteq> [] then
        ''cd ~/prakasa && ([ -d ./venv ] || python3 -m venv ./venv) && source ./venv/bin/activate && HTTP_PROXY=''
        @ [dquote] @ proxy_url @ [dquote] @ '' HTTPS_PROXY='' @ [dquote] @ proxy_url
        @ [dquote] @ '' pip install -e '' @ [squote] @ ''.[gpu]'' @ [squote]
      else
        ''cd ~/prakasa && ([ -d ./venv ] || python3 -m venv ./venv) && source ./venv/bin/activate && pip install -e ''
        @ [squote] @ ''.[gpu]'' @ [squote])"

definition add_cuda_env_cmd :: string where
  "add_cuda_env_cmd =
     ''grep -q '' @ [squote] @ ''/usr/local/cuda-12.8/bin'' @ [squote] @ '' ~/.bashrc || echo ''
     @ [squote] @ ''export PATH=/usr/local/cuda-12.8/bin:$PATH'' @ [squote] @ '' >> ~/.bashrc''"

definition check_dir_cmd :: string where
  "check_dir_cmd = ''ls -la ~/parallax/.git 2>/dev/null || echo '' @ [squote] @ ''not found'' @ [squote]"

definition check_git_cmd :: string where
  "check_git_cmd =
     ''cd ~/parallax && git branch 2>/dev/null || echo '' @ [squote] @ ''not git'' @ [squote]"

text \<open>
  The first entries of \<open>commands\<close> in a fresh installation: the two probes of the directory
  decide between pulling, removing and cloning, and cloning.
\<close>

definition fresh_clone_or_pull ::
  "'w host \<Rightarrow> string \<Rightarrow> string \<Rightarrow> 'w machine \<Rightarrow> step list \<times> 'w machine" where
  "fresh_clone_or_pull orc proxy_url repo_url m =
     (case exec orc (WSL check_dir_cmd (Some 30)) m of
        ((check_dir_code, check_dir_output), m1) \<Rightarrow>
          if check_dir_code = 0 \<and> \<not> has_substr check_dir_output ''not found'' then
            (case exec orc (WSL check_git_cmd (Some 30)) m1 of
               ((check_git_code, check_git_output), m2) \<Rightarrow>
                 if check_git_code = 0 \<and> \<not> has_substr check_git_output ''not git''
                 then ([(''update_parallax'', pull_cmd proxy_url, 300, False)], m2)
                 else ([(''remove_old_prakasa'', ''rm -rf ~/prakasa'', 60, False),
                        (''clone_prakasa'', clone_cmd proxy_url repo_url, 600, False)], m2))
          else ([(''clone_prakasa'', clone_cmd proxy_url repo_url, 600, False)], m1))"

text \<open>The whole list \<open>commands\<close>, for the update mode and for a fresh installation.\<close>

definition build_commands ::
  "'w host \<Rightarrow> bool \<Rightarrow> string \<Rightarrow> string \<Rightarrow> 'w machine \<Rightarrow> step list \<times> 'w machine" where
  "build_commands orc is_update_mode proxy_url repo_url m =
     (if is_update_mode then
        ([(''update_parallax'', pull_cmd proxy_url, 300, False),
          (''install_prakasa_base'', install_base_cmd proxy_url, 1800, True)], m)
      else
        (case fresh_clone_or_pull orc proxy_url repo_url m of
           (first, m') \<Rightarrow>
             (first
              @ [(''install_python3_venv'', install_venv_cmd proxy_url, 300, False),
                 (''install_prakasa_base'', install_base_cmd proxy_url, 1800, True),
                 (''add_cuda_env'', add_cuda_env_cmd, 30, False)], m')))"

text \<open>
  Everything of Install after the decision to go on: the commands are built and run, and the
  installation is verified. \<open>repo_url\<close> is the configured value of
  \<^verbatim>\<open>KEY_PRAKASA_GIT_REPO_URL\<close>.
\<close>

definition run_installation ::
  "'w host \<Rightarrow> (string \<Rightarrow> string \<Rightarrow> string) \<Rightarrow> ExecutionContext \<Rightarrow> string \<Rightarrow> bool
     \<Rightarrow> 'w machine \<Rightarrow> ComponentResult \<times> 'w machine" where
  "run_installation orc bld ctx repo_url is_update_mode m =
     (case build_commands orc is_update_mode (GetProxyUrl ctx) repo_url m of
        (commands, m1) \<Rightarrow>
          (case ExecuteCommandSequence orc bld ctx commands m1 of
             (cmd_result, m2) \<Rightarrow>
               if status cmd_result \<noteq> kSuccess then (cmd_result, m2)
               else
                 (case IsParallaxProjectInstalled orc m2 of
                    (verified, m3) \<Rightarrow>
                      (if verified then
                         (if is_update_mode
                          then CreateSuccessResult kParallaxProject
                                 ''Prakasa project updated successfully''
                          else CreateSuccessResult kParallaxProject
                                 ''Prakasa project installed successfully'')
                       else
                         CreateFailureResult kParallaxProject
                           (if is_update_mode
                            then ''Parallax project update completed but verification failed''
                            else ''Parallax project installation completed but verification failed'')
                           25, m3))))"

definition ParallaxProjectInstaller_Install ::
  "'w host \<Rightarrow> (string \<Rightarrow> string \<Rightarrow> string) \<Rightarrow> ExecutionContext \<Rightarrow> string
     \<Rightarrow> 'w machine \<Rightarrow> ComponentResult \<times> 'w machine" where
  "ParallaxProjectInstaller_Install orc bld ctx repo_url m =
     (case IsParallaxProjectInstalled orc m of
        (is_installed, m1) \<Rightarrow>
          if is_installed then
            (case HasParallaxProjectGitUpdates orc ctx m1 of
               (has_updates, m2) \<Rightarrow>
                 if \<not> has_updates
                 then (CreateSkippedResult kParallaxProject
                         ''Parallax project is already installed and up to date'', m2)
                 else run_installation orc bld ctx repo_url is_installed m2)
          else run_installation orc bld ctx repo_url is_installed m1)"

section \<open>The checkers of system\_checker.cpp\<close>

subsection \<open>OSVersionChecker::Check\<close>

text \<open>
  \<^verbatim>\<open>RtlGetVersion\<close> fills the structure and returns a status. The three fields are
  \<^verbatim>\<open>DWORD\<close>s; the function only compares and prints them, so they are natural numbers here.
\<close>

record RTL_OSVERSIONINFOW =
  dwMajorVersion :: nat
  dwMinorVersion :: nat
  dwBuildNumber :: nat

text \<open>\<^verbatim>\<open>%lu\<close>: the decimal digits of a number.\<close>

fun show_nat :: "nat \<Rightarrow> string" where
  "show_nat n =
     (if n < 10 then [''0123456789'' ! n]
      else show_nat (n div 10) @ [''0123456789'' ! (n mod 10)])"

declare show_nat.simps [simp del]

text \<open>The flag \<open>is_supported\<close> after the three branches.\<close>

definition is_supported :: "RTL_OSVERSIONINFOW \<Rightarrow> bool" where
  "is_supported osvi =
     (if dwMajorVersion osvi \<ge> 11 then True
      else if dwMajorVersion osvi = 10 then
        (if dwBuildNumber osvi \<ge> 19041 then True
         else if dwBuildNumber osvi \<ge> 18362 then True
         else False)
      else False)"

text \<open>The text \<open>version_info\<close> that the three branches print.\<close>

definition version_info :: "RTL_OSVERSIONINFOW \<Rightarrow> string" where
  "version_info osvi =
     (if dwMajorVersion osvi \<ge> 11 then
        ''Windows '' @ show_nat (dwMajorVersion osvi) @ ''.'' @ show_nat (dwMinorVersion osvi)
        @ ''.'' @ show_nat (dwBuildNumber osvi) @ '' (supported)''
      else if dwMajorVersion osvi = 10 then
        ''Windows 10.'' @ show_nat (dwMinorVersion osvi) @ ''.'' @ show_nat (dwBuildNumber osvi)
        @ '' ('' @ (if is_supported osvi then ''supported'' else ''unsupported'') @ '')''
      else
        ''Windows '' @ show_nat (dwMajorVersion osvi) @ ''.'' @ show_nat (dwMinorVersion osvi)
        @ ''.'' @ show_nat (dwBuildNumber osvi)
        @ '' (unsupported - requires Windows 10 build 18362+ or Windows 11)'')"

text \<open>\<open>nt_status\<close> is what \<^verbatim>\<open>RtlGetVersion\<close> returned, \<open>osvi\<close> what it wrote.\<close>

definition OSVersionChecker_Check :: "int \<Rightarrow> RTL_OSVERSIONINFOW \<Rightarrow> ComponentResult" where
  "OSVersionChecker_Check nt_status osvi =
     (if nt_status \<noteq> 0 then CreateFailureResult kOSVersion ''Failed to get OS version'' 10
      else if is_supported osvi then CreateSuccessResult kOSVersion (version_info osvi)
      else CreateFailureResult kOSVersion (version_info osvi) 10)"

text \<open>
  The policy in the words of the specification, with the architecture of the machine as a
  parameter: major at least 11; or major 10 and build at least 19041; or major 10 and build
  from 18362 up to 19041, the last only on 64-bit.
\<close>

definition spec_os_supported :: "bool \<Rightarrow> nat \<Rightarrow> nat \<Rightarrow> bool" where
  "spec_os_supported is_64bit major build =
     (major \<ge> 11 \<or> (major = 10 \<and> build \<ge> 19041)
      \<or> (major = 10 \<and> 18362 \<le> build \<and> build < 19041 \<and> is_64bit))"

text \<open>Below the floor of Windows 10 build 18362.\<close>

definition below_floor :: "nat \<Rightarrow> nat \<Rightarrow> bool" where
  "below_floor major build = (major < 10 \<or> (major = 10 \<and> build < 18362))"

subsection \<open>NvidiaGPUChecker::Check\<close>

text \<open>
  \<^verbatim>\<open>parallax::utils::GPUInfo\<close>, the answer of \<^verbatim>\<open>GetNvidiaGPUInfo()\<close> (not among the
  sources), with the three fields that Check reads.
\<close>

record GPUInfo =
  is_nvidia :: bool
  name :: string
  is_blackwell_series :: bool

definition NvidiaGPUChecker_Check :: "GPUInfo \<Rightarrow> stoi_error + ComponentResult" where
  "NvidiaGPUChecker_Check gpu_info =
     (if \<not> is_nvidia gpu_info then Inr (CreateFailureResult kNvidiaGPU ''No NVIDIA GPU detected'' 7)
      else
        (case IsGPUMeetsMinimumRequirement (name gpu_info) of
           Inl e \<Rightarrow> Inl e
         | Inr meets \<Rightarrow>
             if \<not> meets
             then Inr (CreateFailureResult kNvidiaGPU
                         (''GPU below minimum requirement: '' @ name gpu_info) 8)
             else Inr (CreateSuccessResult kNvidiaGPU
                         (''Compatible NVIDIA GPU detected: '' @ name gpu_info
                          @ (if is_blackwell_series gpu_info
                             then '' (Blackwell series - will use blackwell image)''
                             else '' (will use hopper image)'')))))"

subsection \<open>NvidiaDriverChecker::Check\<close>

text \<open>
  \<^verbatim>\<open>parallax::utils::CUDAInfo\<close>, the answer of \<^verbatim>\<open>GetCUDAInfo()\<close> (not among the sources):
  the version text and whether it is one of the accepted versions.
\<close>

record CUDAInfo =
  version :: string
  is_valid_version :: bool

text \<open>
  What the registry says about the key of the display driver: the key does not open, the key
  opens and has no readable value \<^verbatim>\<open>Version\<close>, or the value.
\<close>

datatype registry_answer = KeyNotFound | ValueNotFound | DriverVersion string

definition nvidia_smi_cmd :: string where
  "nvidia_smi_cmd = ''nvidia-smi --query-gpu=driver_version --format=csv,noheader,nounits''"

definition driver_message :: "string \<Rightarrow> CUDAInfo \<Rightarrow> string" where
  "driver_message driver_version cuda_info =
     ''NVIDIA driver: '' @ driver_version @ '', CUDA toolkit: '' @ version cuda_info
     @ (if \<not> is_valid_version cuda_info \<and> version cuda_info \<noteq> ''Not detected''
        then '' (WARNING: CUDA version should be 12.8.x or 12.9.x)'' else [])"

definition registry_fallback :: "registry_answer \<Rightarrow> ComponentResult" where
  "registry_fallback reg =
     (case reg of
        DriverVersion version_buffer \<Rightarrow>
          CreateSuccessResult kNvidiaDriver
            (''NVIDIA driver installed (registry version: '' @ version_buffer @ '')'')
      | _ \<Rightarrow>
          CreateFailureResult kNvidiaDriver
            ''NVIDIA driver not found. Please install NVIDIA graphics driver first.'' 20)"

definition NvidiaDriverChecker_Check ::
  "'w host \<Rightarrow> CUDAInfo \<Rightarrow> registry_answer \<Rightarrow> 'w machine \<Rightarrow> ComponentResult \<times> 'w machine" where
  "NvidiaDriverChecker_Check orc cuda_info reg m =
     (case exec orc (HostCommand nvidia_smi_cmd 30) m of
        ((exit_code, stdout_output), m') \<Rightarrow>
          (if exit_code = 0 \<and> stdout_output \<noteq> [] then
             (let driver_version = filter (\<lambda>c. \<not> is_space c) stdout_output
              in if driver_version \<noteq> []
                 then CreateSuccessResult kNvidiaDriver (driver_message driver_version cuda_info)
                 else registry_fallback reg)
           else registry_fallback reg, m'))"

subsection \<open>BIOSVirtualizationChecker::Check\<close>

definition bios_not_enabled :: ComponentResult where
  "bios_not_enabled =
     CreateFailureResult kBIOSVirtualization
       ''BIOS virtualization is not enabled. Please restart your computer and enable virtualization in BIOS settings.''
       20"

text \<open>The backup method, on \<^verbatim>\<open>wsl --status\<close>.\<close>

definition wsl_status_check :: "'w host \<Rightarrow> 'w machine \<Rightarrow> ComponentResult \<times> 'w machine" where
  "wsl_status_check orc m =
     (case exec orc (PowerShell ''wsl --status'') m of
        ((wsl_status_code, wsl_status_output), m') \<Rightarrow>
          (if wsl_status_code = 0 then
             (if has_substr wsl_status_output ''ensure virtualization is enabled in the BIOS''
                 \<or> has_substr wsl_status_output
                      ''WSL2 is not supported with your current machine configuration''
                 \<or> has_substr wsl_status_output ''virtualization is not enabled''
              then bios_not_enabled
              else CreateSuccessResult kBIOSVirtualization ''BIOS virtualization is enabled'')
           else CreateSuccessResult kBIOSVirtualization
                  ''BIOS virtualization status check completed (unable to verify definitively)'',
           m'))"

definition BIOSVirtualizationChecker_Check ::
  "'w host \<Rightarrow> 'w machine \<Rightarrow> ComponentResult \<times> 'w machine" where
  "BIOSVirtualizationChecker_Check orc m =
     (case exec orc (PowerShell ''systeminfo'') m of
        ((systeminfo_code, systeminfo_output), m') \<Rightarrow>
          if systeminfo_code = 0
             \<and> has_substr systeminfo_output ''Virtualization Enabled In Firmware: Yes''
          then (CreateSuccessResult kBIOSVirtualization ''BIOS virtualization is enabled'', m')
          else if systeminfo_code = 0
             \<and> has_substr systeminfo_output ''Virtualization Enabled In Firmware: No''
          then (bios_not_enabled, m')
          else wsl_status_check orc m')"

section \<open>Notions of the specification\<close>

text \<open>
  No determination of the virtualization state, method by method. The system-information query
  determines the state when it succeeds and its output has the line that says Yes or the line
  that says No. The status query of the subsystem platform is matched against the known
  failure phrases only; it determines the state (as not enabled) when it succeeds and its
  output has one of them.
\<close>

definition systeminfo_undetermined :: "int \<Rightarrow> string \<Rightarrow> bool" where
  "systeminfo_undetermined code out =
     (code \<noteq> 0
      \<or> (\<not> has_substr out ''Virtualization Enabled In Firmware: Yes''
          \<and> \<not> has_substr out ''Virtualization Enabled In Firmware: No''))"

definition wsl_failure_phrase :: "string \<Rightarrow> bool" where
  "wsl_failure_phrase out =
     (has_substr out ''ensure virtualization is enabled in the BIOS''
      \<or> has_substr out ''WSL2 is not supported with your current machine configuration''
      \<or> has_substr out ''virtualization is not enabled'')"

definition wsl_status_undetermined :: "int \<Rightarrow> string \<Rightarrow> bool" where
  "wsl_status_undetermined code out = (code \<noteq> 0 \<or> \<not> wsl_failure_phrase out)"



text \<open>The three calls that HasParallaxProjectGitUpdates can make.\<close>

definition git_probes :: "ExecutionContext \<Rightarrow> call set" where
  "git_probes ctx =
     {WSL rev_parse_cmd (Some 30), WSL (fetch_cmd (GetProxyUrl ctx)) (Some 60),
      WSL rev_list_cmd (Some 30)}"

text \<open>
  A machine given by a table: a call of the table is answered as the table says, any other
  call exits with 0 and writes \<open>ok\<close>; the state counts the calls made.
\<close>

definition table_host :: "(call \<times> int \<times> string) list \<Rightarrow> nat host" where
  "table_host tbl =
     (\<lambda>c n. (case map_of tbl c of Some r \<Rightarrow> r | None \<Rightarrow> (0, ''ok''), Suc n))"


definition demo_ctx :: ExecutionContext where
  "demo_ctx = \<lparr>GetProxyUrl = [], GetUbuntuVersion = ''Ubuntu-24.04''\<rparr>"

definition demo_bld :: "string \<Rightarrow> string \<Rightarrow> string" where
  "demo_bld distro cmd = ''wsl -d '' @ distro @ '' -- '' @ cmd"

section \<open>Properties\<close>

lemmas special_chars =
  backslash_def newline_def carriage_return_def tab_def vtab_def formfeed_def
  dquote_def squote_def

lemmas Create_defs =
  CreateSuccessResult_def CreateSkippedResult_def CreateWarningResult_def
  CreateFailureResult_def

subsection \<open>ConfigManager: the round trip of EscapeValue and ParseKeyValue\<close>

lemma erase_leading_id: "s = [] \<or> \<not> blank (hd s) \<Longrightarrow> erase_leading s = s"
  by (cases s) (simp_all add: erase_leading_def)

lemma erase_trailing_id: "s = [] \<or> \<not> blank (last s) \<Longrightarrow> erase_trailing s = s"
  by (cases s rule: rev_cases) (simp_all add: erase_trailing_def)

lemma trimmed_erase: "trimmed s \<Longrightarrow> erase_trailing (erase_leading s) = s"
  by (auto simp: trimmed_def erase_leading_id erase_trailing_id)

lemma find_char_first:
  "c \<notin> set k \<Longrightarrow> find_char c (k @ c # rest) = Some (length k)"
  by (induction k) auto

lemma unescape_escape_char:
  "unescape (escape_char c @ rest) = c # unescape rest"
proof (cases rest)
  case Nil
  then show ?thesis
    by (simp add: escape_char_def unescape_char_def special_chars)
next
  case (Cons r rs)
  then show ?thesis
    by (simp add: escape_char_def unescape_char_def special_chars)
qed

lemma unescape_EscapeValue: "unescape (EscapeValue v) = v"
  by (induction v) (simp_all add: unescape_escape_char)

lemma escape_char_nonempty: "escape_char c \<noteq> []"
  by (simp add: escape_char_def)

lemma hd_escape_char_not_blank: "\<not> blank c \<Longrightarrow> \<not> blank (hd (escape_char c))"
  by (simp add: escape_char_def blank_def special_chars)

lemma last_escape_char_not_blank: "\<not> blank c \<Longrightarrow> \<not> blank (last (escape_char c))"
  by (simp add: escape_char_def blank_def special_chars)

lemma EscapeValue_append: "EscapeValue (xs @ ys) = EscapeValue xs @ EscapeValue ys"
  by (induction xs) simp_all

lemma EscapeValue_Nil_iff: "EscapeValue v = [] \<longleftrightarrow> v = []"
  by (cases v) (simp_all add: escape_char_nonempty)

lemma trimmed_EscapeValue: "trimmed v \<Longrightarrow> trimmed (EscapeValue v)"
proof (cases v rule: rev_cases)
  case Nil
  then show ?thesis by (simp add: trimmed_def)
next
  case (snoc ys y)
  assume t: "trimmed v"
  from t snoc have l: "\<not> blank y" by (simp add: trimmed_def)
  from t snoc have h: "\<not> blank (hd (ys @ [y]))" by (simp add: trimmed_def)
  have hd_esc: "\<not> blank (hd (EscapeValue (ys @ [y])))"
  proof (cases ys)
    case Nil
    with l show ?thesis by (simp add: hd_escape_char_not_blank)
  next
    case (Cons z zs)
    with h have "\<not> blank z" by simp
    with Cons show ?thesis
      by (simp add: escape_char_nonempty hd_escape_char_not_blank)
  qed
  have last_esc: "\<not> blank (last (EscapeValue (ys @ [y])))"
    using l by (simp add: EscapeValue_append escape_char_nonempty last_escape_char_not_blank)
  show ?thesis
    using hd_esc last_esc snoc by (simp add: trimmed_def)
qed

text \<open>
  C10. A key without \<^verbatim>\<open>=\<close> and without leading or trailing blanks, and a value without leading
  or trailing blanks, come back unchanged from ParseKeyValue when the line is
  \<^verbatim>\<open>key + "=" + EscapeValue(value)\<close>, the line SaveConfig writes.
\<close>

theorem ParseKeyValue_EscapeValue_roundtrip:
  assumes "CHR ''='' \<notin> set key" and "trimmed key" and "trimmed val"
  shows "ParseKeyValue (key @ ''='' @ EscapeValue val) = Some (key, val)"
proof -
  have pos: "find_char (CHR ''='') (key @ ''='' @ EscapeValue val) = Some (length key)"
    using assms(1) find_char_first [of "CHR ''=''" key "EscapeValue val"] by simp
  have k: "erase_trailing (erase_leading key) = key"
    using assms(2) by (rule trimmed_erase)
  have v: "erase_trailing (erase_leading (EscapeValue val)) = EscapeValue val"
    using assms(3) by (intro trimmed_erase trimmed_EscapeValue)
  show ?thesis
    using pos k v by (simp add: ParseKeyValue_def unescape_EscapeValue)
qed

theorem ParseKeyValue_EscapeValue_roundtrip_witness:
  "CHR ''='' \<notin> set ''proxy_url'' \<and> trimmed ''proxy_url'' \<and> trimmed [CHR ''a'', CHR ''='', backslash, tab, CHR ''b'']
   \<and> ParseKeyValue (''proxy_url'' @ ''='' @ EscapeValue [CHR ''a'', CHR ''='', backslash, tab, CHR ''b''])
       = Some (''proxy_url'', [CHR ''a'', CHR ''='', backslash, tab, CHR ''b''])"
proof -
  have a: "CHR ''='' \<notin> set ''proxy_url''" by simp
  have b: "trimmed ''proxy_url''" by (simp add: trimmed_def blank_def special_chars)
  have c: "trimmed [CHR ''a'', CHR ''='', backslash, tab, CHR ''b'']"
    by (simp add: trimmed_def blank_def special_chars)
  show ?thesis
    using a b c ParseKeyValue_EscapeValue_roundtrip [OF a b c] by simp
qed

subsection \<open>CheckAllComponents: the overall verdict\<close>

lemma scan_results_failed:
  "fst (scan_results rs (f, w)) = (f \<or> (\<exists>r\<in>set rs. status r = kFailed))"
  by (induction rs arbitrary: f w) auto

lemma scan_results_warning:
  "\<not> (\<exists>r\<in>set rs. status r = kFailed) \<Longrightarrow>
   snd (scan_results rs (f, w)) = (w \<or> (\<exists>r\<in>set rs. status r = kWarning))"
  by (induction rs arbitrary: f w) auto

text \<open>
  C2. The exit code of CheckAllComponents: 2 (reboot) when the result says a reboot is
  required, whatever the statuses are; otherwise 1 (failed) when some component result is
  Failed; otherwise 3 (warning) when some component result is Warning; otherwise 0 (success).
\<close>

theorem CheckAllComponents_verdict:
  "CheckAllComponents result =
     (if reboot_required result then 2
      else if \<exists>r\<in>set (component_results result). status r = kFailed then 1
      else if \<exists>r\<in>set (component_results result). status r = kWarning then 3
      else 0)"
proof -
  obtain f w where fw: "scan_results (component_results result) (False, False) = (f, w)"
    by (cases "scan_results (component_results result) (False, False)")
  have f: "f = (\<exists>r\<in>set (component_results result). status r = kFailed)"
    using scan_results_failed [of "component_results result" False False] fw by simp
  have w: "\<not> f \<Longrightarrow> w = (\<exists>r\<in>set (component_results result). status r = kWarning)"
    using scan_results_warning [of "component_results result" False False] fw f by simp
  show ?thesis
    using f w by (auto simp: CheckAllComponents_def fw)
qed

theorem CheckAllComponents_verdict_witness:
  "CheckAllComponents
     \<lparr>component_results =
        [CreateWarningResult kParallaxProject ''w'', CreateSuccessResult kOSVersion ''s'',
         CreateFailureResult kNvidiaGPU ''f'' 8],
      reboot_required = True, overall_message = ''''\<rparr> = 2
   \<and> CheckAllComponents
     \<lparr>component_results =
        [CreateWarningResult kParallaxProject ''w'', CreateSuccessResult kOSVersion ''s'',
         CreateFailureResult kNvidiaGPU ''f'' 8],
      reboot_required = False, overall_message = ''''\<rparr> = 1
   \<and> CheckAllComponents
     \<lparr>component_results =
        [CreateWarningResult kParallaxProject ''w'', CreateSuccessResult kOSVersion ''s''],
      reboot_required = False, overall_message = ''''\<rparr> = 3
   \<and> CheckAllComponents
     \<lparr>component_results =
        [CreateSkippedResult kPipUpgrade ''k'', CreateSuccessResult kOSVersion ''s''],
      reboot_required = False, overall_message = ''''\<rparr> = 0"
  using
    CheckAllComponents_verdict [of "\<lparr>component_results =
        [CreateWarningResult kParallaxProject ''w'', CreateSuccessResult kOSVersion ''s'',
         CreateFailureResult kNvidiaGPU ''f'' 8],
      reboot_required = True, overall_message = ''''\<rparr>"]
    CheckAllComponents_verdict [of "\<lparr>component_results =
        [CreateWarningResult kParallaxProject ''w'', CreateSuccessResult kOSVersion ''s'',
         CreateFailureResult kNvidiaGPU ''f'' 8],
      reboot_required = False, overall_message = ''''\<rparr>"]
    CheckAllComponents_verdict [of "\<lparr>component_results =
        [CreateWarningResult kParallaxProject ''w'', CreateSuccessResult kOSVersion ''s''],
      reboot_required = False, overall_message = ''''\<rparr>"]
    CheckAllComponents_verdict [of "\<lparr>component_results =
        [CreateSkippedResult kPipUpgrade ''k'', CreateSuccessResult kOSVersion ''s''],
      reboot_required = False, overall_message = ''''\<rparr>"]
  by (simp add: Create_defs)

subsection \<open>ExecuteCommandSequence: stop at the first failure\<close>

lemma exec_pair:
  "exec orc c (tr, w) = (case orc c w of (r, w') \<Rightarrow> (r, (tr @ [c], w')))"
  by (simp add: exec_def)




subsection \<open>Install on a component that is already satisfied\<close>

lemma IsParallaxProjectInstalled_trace:
  "fst (snd (IsParallaxProjectInstalled orc (tr, w))) = tr @ [WSL pip_list_cmd None]"
  by (simp add: IsParallaxProjectInstalled_def exec_pair split: prod.splits)

lemma HasParallaxProjectGitUpdates_trace:
  "\<exists>probes. fst (snd (HasParallaxProjectGitUpdates orc ctx (tr, w))) = tr @ probes
      \<and> set probes \<subseteq> git_probes ctx"
proof -
  obtain c1 o1 w1 where p1: "orc (WSL rev_parse_cmd (Some 30)) w = ((c1, o1), w1)"
    by (metis prod.exhaust)
  obtain c2 o2 w2 where p2: "orc (WSL (fetch_cmd (GetProxyUrl ctx)) (Some 60)) w1 = ((c2, o2), w2)"
    by (metis prod.exhaust)
  obtain c3 o3 w3 where p3: "orc (WSL rev_list_cmd (Some 30)) w2 = ((c3, o3), w3)"
    by (metis prod.exhaust)
  let ?a = "WSL rev_parse_cmd (Some 30)"
  let ?b = "WSL (fetch_cmd (GetProxyUrl ctx)) (Some 60)"
  let ?c = "WSL rev_list_cmd (Some 30)"
  have "fst (snd (HasParallaxProjectGitUpdates orc ctx (tr, w))) =
          tr @ (if c1 \<noteq> 0 then [?a] else if c2 \<noteq> 0 then [?a, ?b] else [?a, ?b, ?c])"
    using p1 p2 p3 by (simp add: HasParallaxProjectGitUpdates_def exec_pair)
  moreover have "set (if c1 \<noteq> 0 then [?a] else if c2 \<noteq> 0 then [?a, ?b] else [?a, ?b, ?c])
      \<subseteq> git_probes ctx"
    by (simp add: git_probes_def)
  ultimately show ?thesis by blast
qed

lemma Check_Skipped_iff:
  assumes "IsParallaxProjectInstalled orc m = (is_installed, m1)"
    and "HasParallaxProjectGitUpdates orc ctx m1 = (has_updates, m2)"
  shows "status (fst (ParallaxProjectInstaller_Check orc ctx m)) = kSkipped
     \<longleftrightarrow> is_installed \<and> \<not> has_updates"
  using assms by (simp add: ParallaxProjectInstaller_Check_def Create_defs)

text \<open>
  C4, as amended. Project deployment: when Check reports Skipped (the project is installed and
  up to date), Install returns the same Skipped result on the same machine state, and the calls
  it has made are the probe of the installation followed by calls among the three git probes of
  HasParallaxProjectGitUpdates; no installation step is run. Pip upgrade: when pip is
  available, Install does not install python3-pip, but it runs the upgrade command and returns
  Success when that exits with zero and Failed with code 24 otherwise; it never returns Skipped.
\<close>

theorem Install_when_already_satisfied:
  "(status (fst (ParallaxProjectInstaller_Check orc ctx (tr, w))) = kSkipped
    \<longrightarrow> ParallaxProjectInstaller_Install orc bld ctx repo_url (tr, w)
          = ParallaxProjectInstaller_Check orc ctx (tr, w)
        \<and> (\<exists>probes.
              fst (snd (ParallaxProjectInstaller_Install orc bld ctx repo_url (tr, w)))
                = tr @ WSL pip_list_cmd None # probes
              \<and> set probes \<subseteq> git_probes ctx))
   \<and> (IsPipUpToDate orc (tr, w) = (True, m1)
      \<and> exec orc (WSL (upgrade_cmd (GetProxyUrl ctx)) (Some 300)) m1
          = ((upgrade_code, upgrade_output), m2)
    \<longrightarrow> PipUpgradeManager_Install orc ctx (tr, w) =
          (if upgrade_code \<noteq> 0
           then CreateFailureResult kPipUpgrade (''Failed to upgrade pip: '' @ upgrade_output) 24
           else CreateSuccessResult kPipUpgrade ''pip installed and upgraded successfully'', m2)
        \<and> fst m2 = tr @ [WSL ''pip --version'' None,
                           WSL (upgrade_cmd (GetProxyUrl ctx)) (Some 300)]
        \<and> status (fst (PipUpgradeManager_Install orc ctx (tr, w))) \<noteq> kSkipped)"
proof (intro conjI impI)
  assume sk: "status (fst (ParallaxProjectInstaller_Check orc ctx (tr, w))) = kSkipped"
  obtain is_installed tr1 w1 where
    i: "IsParallaxProjectInstalled orc (tr, w) = (is_installed, (tr1, w1))"
    by (metis prod.exhaust)
  obtain has_updates m2' where
    h: "HasParallaxProjectGitUpdates orc ctx (tr1, w1) = (has_updates, m2')"
    by (metis prod.exhaust)
  from sk Check_Skipped_iff [OF i h] have yes: "is_installed" and no: "\<not> has_updates"
    by simp_all
  show same: "ParallaxProjectInstaller_Install orc bld ctx repo_url (tr, w)
          = ParallaxProjectInstaller_Check orc ctx (tr, w)"
    using i h yes no
    by (simp add: ParallaxProjectInstaller_Install_def ParallaxProjectInstaller_Check_def)
  have tr1: "tr1 = tr @ [WSL pip_list_cmd None]"
    using IsParallaxProjectInstalled_trace [of orc tr w] i by simp
  obtain probes where p: "fst (snd (HasParallaxProjectGitUpdates orc ctx (tr1, w1)))
      = tr1 @ probes" "set probes \<subseteq> git_probes ctx"
    using HasParallaxProjectGitUpdates_trace [of orc ctx tr1 w1] by blast
  from p(1) h tr1 have m2': "fst m2' = tr @ WSL pip_list_cmd None # probes"
    by simp
  have "fst (snd (ParallaxProjectInstaller_Install orc bld ctx repo_url (tr, w)))
      = tr @ WSL pip_list_cmd None # probes"
    using i h yes no m2'
    by (simp add: ParallaxProjectInstaller_Install_def)
  with p(2) show "\<exists>probes.
              fst (snd (ParallaxProjectInstaller_Install orc bld ctx repo_url (tr, w)))
                = tr @ WSL pip_list_cmd None # probes
              \<and> set probes \<subseteq> git_probes ctx"
    by blast
next
  assume a: "IsPipUpToDate orc (tr, w) = (True, m1)
      \<and> exec orc (WSL (upgrade_cmd (GetProxyUrl ctx)) (Some 300)) m1
          = ((upgrade_code, upgrade_output), m2)"
  then have up: "IsPipUpToDate orc (tr, w) = (True, m1)"
    and ex: "exec orc (WSL (upgrade_cmd (GetProxyUrl ctx)) (Some 300)) m1
          = ((upgrade_code, upgrade_output), m2)"
    by simp_all
  have none: "install_pip_if_missing orc (GetProxyUrl ctx) (tr, w) = (None, m1)"
    using up by (simp add: install_pip_if_missing_def)
  show res: "PipUpgradeManager_Install orc ctx (tr, w) =
          (if upgrade_code \<noteq> 0
           then CreateFailureResult kPipUpgrade (''Failed to upgrade pip: '' @ upgrade_output) 24
           else CreateSuccessResult kPipUpgrade ''pip installed and upgraded successfully'', m2)"
    using none ex by (simp add: PipUpgradeManager_Install_def)
  have t1: "fst m1 = tr @ [WSL ''pip --version'' None]"
    using up by (auto simp: IsPipUpToDate_def exec_pair split: prod.splits)
  show "fst m2 = tr @ [WSL ''pip --version'' None,
                           WSL (upgrade_cmd (GetProxyUrl ctx)) (Some 300)]"
    using ex t1 by (cases m1) (auto simp: exec_pair split: prod.splits)
  show "status (fst (PipUpgradeManager_Install orc ctx (tr, w))) \<noteq> kSkipped"
    unfolding res by (simp add: Create_defs)
qed

theorem Install_when_already_satisfied_witness:
  "ParallaxProjectInstaller_Install
     (table_host [(WSL rev_list_cmd (Some 30), 0, ''0'' @ [newline])]) demo_bld demo_ctx
     ''https://example.org/prakasa.git'' ([], 0)
   = (CreateSkippedResult kParallaxProject
        ''Parallax project is already installed and up to date'',
      ([WSL pip_list_cmd None, WSL rev_parse_cmd (Some 30),
        WSL ''cd ~/prakasa && git fetch origin'' (Some 60), WSL rev_list_cmd (Some 30)], 4))
   \<and> PipUpgradeManager_Install (table_host []) demo_ctx ([], 0)
   = (CreateSuccessResult kPipUpgrade ''pip installed and upgraded successfully'',
      ([WSL ''pip --version'' None,
        WSL ''pip install --upgrade pip --break-system-packages --ignore-installed'' (Some 300)],
       2))"
proof -
  let ?H = "table_host [(WSL rev_list_cmd (Some 30), 0, ''0'' @ [newline])]"
  have chk: "ParallaxProjectInstaller_Check ?H demo_ctx ([], 0)
      = (CreateSkippedResult kParallaxProject
           ''Parallax project is already installed and up to date'',
         ([WSL pip_list_cmd None, WSL rev_parse_cmd (Some 30),
           WSL ''cd ~/prakasa && git fetch origin'' (Some 60), WSL rev_list_cmd (Some 30)], 4))"
    by (simp add: ParallaxProjectInstaller_Check_def IsParallaxProjectInstalled_def
        HasParallaxProjectGitUpdates_def exec_pair table_host_def pip_list_cmd_def
        rev_parse_cmd_def fetch_cmd_def rev_list_cmd_def demo_ctx_def count_says_updates_def
        stoi_def is_space_def is_digit_def special_chars digit_value_def INT_MAX_def INT_MIN_def)
  then have sk: "status (fst (ParallaxProjectInstaller_Check ?H demo_ctx ([], 0))) = kSkipped"
    by (simp add: Create_defs)
  have up: "IsPipUpToDate (table_host []) ([], 0) = (True, ([WSL ''pip --version'' None], 1))"
    by (simp add: IsPipUpToDate_def exec_pair table_host_def)
  have ex: "exec (table_host []) (WSL (upgrade_cmd (GetProxyUrl demo_ctx)) (Some 300))
      ([WSL ''pip --version'' None], 1)
      = ((0, ''ok''), ([WSL ''pip --version'' None,
            WSL ''pip install --upgrade pip --break-system-packages --ignore-installed''
              (Some 300)], 2))"
    by (simp add: exec_pair table_host_def upgrade_cmd_def demo_ctx_def)
  note project = Install_when_already_satisfied
    [where orc = ?H and ctx = demo_ctx and tr = "[]" and w = 0 and bld = demo_bld
       and repo_url = "''https://example.org/prakasa.git''",
     THEN conjunct1, rule_format, OF sk, THEN conjunct1]
  note pip = Install_when_already_satisfied
    [where orc = "table_host []" and ctx = demo_ctx and tr = "[]" and w = 0
       and ?m1.0 = "([WSL ''pip --version'' None], 1)" and upgrade_code = 0
       and upgrade_output = "''ok''",
     THEN conjunct2, rule_format, OF conjI [OF up ex], THEN conjunct1]
  show ?thesis
    using project pip chk by simp
qed

text \<open>
  The claim as it stands fails for the pip upgrade: with pip available (Check reports Skipped),
  Install runs the upgrade command and returns Success.
\<close>

theorem Install_pip_not_Skipped_counterexample:
  "status (fst (PipUpgradeManager_Check (table_host []) ([], 0))) = kSkipped
   \<and> status (fst (PipUpgradeManager_Install (table_host []) demo_ctx ([], 0))) = kSuccess
   \<and> status (fst (PipUpgradeManager_Install (table_host []) demo_ctx ([], 0))) \<noteq> kSkipped
   \<and> fst (snd (PipUpgradeManager_Install (table_host []) demo_ctx ([], 0)))
       = [WSL ''pip --version'' None,
          WSL ''pip install --upgrade pip --break-system-packages --ignore-installed''
            (Some 300)]"
  by (simp add: PipUpgradeManager_Check_def PipUpgradeManager_Install_def
      install_pip_if_missing_def IsPipUpToDate_def exec_pair table_host_def upgrade_cmd_def
      demo_ctx_def Create_defs)

subsection \<open>OSVersionChecker::Check\<close>

lemma is_supported_iff:
  "is_supported osvi \<longleftrightarrow>
     dwMajorVersion osvi \<ge> 11 \<or> (dwMajorVersion osvi = 10 \<and> dwBuildNumber osvi \<ge> 18362)"
  by (auto simp: is_supported_def)

text \<open>
  C5. For a version that \<^verbatim>\<open>RtlGetVersion\<close> reports, Check returns Success exactly when the
  version is supported: major at least 11, or major 10 and the build at least 19041, or major
  10 and the build from 18362 up to 19041 on a 64-bit machine. The program is built for x64
  only (\<^verbatim>\<open>cmake -A x64\<close>), so every machine it runs on is 64-bit, which is what the function
  assumes. Every version below the floor of Windows 10 build 18362 gives Failed with the
  failure code 10.
\<close>

theorem OSVersionChecker_Check_policy:
  "(status (OSVersionChecker_Check 0 osvi) = kSuccess
      \<longleftrightarrow> spec_os_supported True (dwMajorVersion osvi) (dwBuildNumber osvi))
   \<and> (spec_os_supported True (dwMajorVersion osvi) (dwBuildNumber osvi)
      \<longrightarrow> OSVersionChecker_Check 0 osvi = CreateSuccessResult kOSVersion (version_info osvi))
   \<and> (below_floor (dwMajorVersion osvi) (dwBuildNumber osvi)
      \<longrightarrow> status (OSVersionChecker_Check 0 osvi) = kFailed
        \<and> failure_code (OSVersionChecker_Check 0 osvi) = 10)"
proof -
  have s: "is_supported osvi
      \<longleftrightarrow> spec_os_supported True (dwMajorVersion osvi) (dwBuildNumber osvi)"
    unfolding is_supported_iff spec_os_supported_def by auto
  have b: "below_floor (dwMajorVersion osvi) (dwBuildNumber osvi) \<Longrightarrow> \<not> is_supported osvi"
    unfolding is_supported_iff below_floor_def by auto
  show ?thesis
    using s b by (auto simp: OSVersionChecker_Check_def Create_defs)
qed

theorem OSVersionChecker_Check_policy_witness:
  "OSVersionChecker_Check 0 \<lparr>dwMajorVersion = 10, dwMinorVersion = 0, dwBuildNumber = 22631\<rparr>
     = CreateSuccessResult kOSVersion ''Windows 10.0.22631 (supported)''
   \<and> status (OSVersionChecker_Check 0
        \<lparr>dwMajorVersion = 10, dwMinorVersion = 0, dwBuildNumber = 17763\<rparr>) = kFailed
   \<and> failure_code (OSVersionChecker_Check 0
        \<lparr>dwMajorVersion = 10, dwMinorVersion = 0, dwBuildNumber = 17763\<rparr>) = 10"
proof -
  have a: "spec_os_supported True 10 22631" by (simp add: spec_os_supported_def)
  have b: "below_floor 10 17763" by (simp add: below_floor_def)
  have v: "version_info \<lparr>dwMajorVersion = 10, dwMinorVersion = 0, dwBuildNumber = 22631\<rparr>
      = ''Windows 10.0.22631 (supported)''"
    by (simp add: version_info_def is_supported_def show_nat.simps)
  show ?thesis
    using a b v
      OSVersionChecker_Check_policy
        [of "\<lparr>dwMajorVersion = 10, dwMinorVersion = 0, dwBuildNumber = 22631\<rparr>"]
      OSVersionChecker_Check_policy
        [of "\<lparr>dwMajorVersion = 10, dwMinorVersion = 0, dwBuildNumber = 17763\<rparr>"]
    by simp
qed

subsection \<open>NvidiaDriverChecker::Check\<close>

lemma scan_results_all_success:
  "\<forall>r\<in>set rs. status r = kSuccess \<Longrightarrow> scan_results rs (f, w) = (f, w)"
  by (induction rs) auto

text \<open>
  C6, as amended. When the driver query succeeds (exit code 0 and an output that is not only
  white space) and the toolkit version is present but not an accepted one, the result of Check
  has the status Success; the warning is in its message only, which ends with
  \<^verbatim>\<open>(WARNING: CUDA version should be 12.8.x or 12.9.x)\<close>. With every other component
  Success and no reboot required, the overall verdict is Success (exit code 0).
\<close>

theorem NvidiaDriverChecker_Check_toolkit_warning:
  "orc (HostCommand nvidia_smi_cmd 30) w = ((0, stdout_output), w')
   \<and> filter (\<lambda>c. \<not> is_space c) stdout_output \<noteq> []
   \<and> \<not> is_valid_version cuda_info \<and> version cuda_info \<noteq> ''Not detected''
   \<longrightarrow>
     NvidiaDriverChecker_Check orc cuda_info reg (tr, w) =
       (CreateSuccessResult kNvidiaDriver
          (''NVIDIA driver: '' @ filter (\<lambda>c. \<not> is_space c) stdout_output
           @ '', CUDA toolkit: '' @ version cuda_info
           @ '' (WARNING: CUDA version should be 12.8.x or 12.9.x)''),
        (tr @ [HostCommand nvidia_smi_cmd 30], w'))
     \<and> status (fst (NvidiaDriverChecker_Check orc cuda_info reg (tr, w))) = kSuccess
     \<and> ((\<forall>r\<in>set (before @ after). status r = kSuccess) \<longrightarrow>
          CheckAllComponents
            \<lparr>component_results =
               before @ fst (NvidiaDriverChecker_Check orc cuda_info reg (tr, w)) # after,
             reboot_required = False, overall_message = msg\<rparr> = 0)"
proof (intro impI)
  assume a: "orc (HostCommand nvidia_smi_cmd 30) w = ((0, stdout_output), w')
   \<and> filter (\<lambda>c. \<not> is_space c) stdout_output \<noteq> []
   \<and> \<not> is_valid_version cuda_info \<and> version cuda_info \<noteq> ''Not detected''"
  then have ne: "stdout_output \<noteq> []" by auto
  have res: "NvidiaDriverChecker_Check orc cuda_info reg (tr, w) =
       (CreateSuccessResult kNvidiaDriver
          (''NVIDIA driver: '' @ filter (\<lambda>c. \<not> is_space c) stdout_output
           @ '', CUDA toolkit: '' @ version cuda_info
           @ '' (WARNING: CUDA version should be 12.8.x or 12.9.x)''),
        (tr @ [HostCommand nvidia_smi_cmd 30], w'))"
    using a ne by (simp add: NvidiaDriverChecker_Check_def exec_pair driver_message_def)
  have st: "status (fst (NvidiaDriverChecker_Check orc cuda_info reg (tr, w))) = kSuccess"
    unfolding res by (simp add: CreateSuccessResult_def)
  have all: "(\<forall>r\<in>set (before @ after). status r = kSuccess) \<longrightarrow>
          CheckAllComponents
            \<lparr>component_results =
               before @ fst (NvidiaDriverChecker_Check orc cuda_info reg (tr, w)) # after,
             reboot_required = False, overall_message = msg\<rparr> = 0"
  proof
    assume ok: "\<forall>r\<in>set (before @ after). status r = kSuccess"
    let ?rs = "before @ fst (NvidiaDriverChecker_Check orc cuda_info reg (tr, w)) # after"
    from ok st have "\<forall>r\<in>set ?rs. status r = kSuccess" by auto
    then have "scan_results ?rs (False, False) = (False, False)"
      by (rule scan_results_all_success)
    then show "CheckAllComponents
            \<lparr>component_results = ?rs, reboot_required = False, overall_message = msg\<rparr> = 0"
      by (simp add: CheckAllComponents_def)
  qed
  from res st all show "NvidiaDriverChecker_Check orc cuda_info reg (tr, w) =
       (CreateSuccessResult kNvidiaDriver
          (''NVIDIA driver: '' @ filter (\<lambda>c. \<not> is_space c) stdout_output
           @ '', CUDA toolkit: '' @ version cuda_info
           @ '' (WARNING: CUDA version should be 12.8.x or 12.9.x)''),
        (tr @ [HostCommand nvidia_smi_cmd 30], w'))
     \<and> status (fst (NvidiaDriverChecker_Check orc cuda_info reg (tr, w))) = kSuccess
     \<and> ((\<forall>r\<in>set (before @ after). status r = kSuccess) \<longrightarrow>
          CheckAllComponents
            \<lparr>component_results =
               before @ fst (NvidiaDriverChecker_Check orc cuda_info reg (tr, w)) # after,
             reboot_required = False, overall_message = msg\<rparr> = 0)"
    by blast
qed

theorem NvidiaDriverChecker_Check_toolkit_warning_witness:
  "NvidiaDriverChecker_Check
     (table_host [(HostCommand nvidia_smi_cmd 30, 0, ''550.54'' @ [newline])])
     \<lparr>version = ''12.7'', is_valid_version = False\<rparr> KeyNotFound ([], 0) =
     (CreateSuccessResult kNvidiaDriver
        ''NVIDIA driver: 550.54, CUDA toolkit: 12.7 (WARNING: CUDA version should be 12.8.x or 12.9.x)'',
      ([HostCommand nvidia_smi_cmd 30], 1))
   \<and> CheckAllComponents
        \<lparr>component_results =
           [CreateSuccessResult kOSVersion ''Windows 10.0.22631 (supported)'']
           @ fst (NvidiaDriverChecker_Check
                (table_host [(HostCommand nvidia_smi_cmd 30, 0, ''550.54'' @ [newline])])
                \<lparr>version = ''12.7'', is_valid_version = False\<rparr> KeyNotFound ([], 0))
           # [CreateSuccessResult kBIOSVirtualization ''BIOS virtualization is enabled''],
         reboot_required = False, overall_message = []\<rparr> = 0"
proof -
  let ?H = "table_host [(HostCommand nvidia_smi_cmd 30, 0, ''550.54'' @ [newline])]"
  have a: "?H (HostCommand nvidia_smi_cmd 30) 0 = ((0, ''550.54'' @ [newline]), 1)"
    by (simp add: table_host_def)
  have b: "filter (\<lambda>c. \<not> is_space c) (''550.54'' @ [newline]) = ''550.54''"
    by (simp add: is_space_def special_chars)
  have c: "\<not> is_valid_version \<lparr>version = ''12.7'', is_valid_version = False\<rparr>
      \<and> version \<lparr>version = ''12.7'', is_valid_version = False\<rparr> \<noteq> ''Not detected''"
    by simp
  have hyp: "?H (HostCommand nvidia_smi_cmd 30) 0 = ((0, ''550.54'' @ [newline]), 1)
      \<and> filter (\<lambda>c. \<not> is_space c) (''550.54'' @ [newline]) \<noteq> []
      \<and> \<not> is_valid_version \<lparr>version = ''12.7'', is_valid_version = False\<rparr>
      \<and> version \<lparr>version = ''12.7'', is_valid_version = False\<rparr> \<noteq> ''Not detected''"
    using a b c by simp
  note t = NvidiaDriverChecker_Check_toolkit_warning
    [where orc = ?H and w = 0 and stdout_output = "''550.54'' @ [newline]" and w' = 1
       and cuda_info = "\<lparr>version = ''12.7'', is_valid_version = False\<rparr>"
       and reg = KeyNotFound and tr = "[]"
       and before = "[CreateSuccessResult kOSVersion ''Windows 10.0.22631 (supported)'']"
       and after = "[CreateSuccessResult kBIOSVirtualization ''BIOS virtualization is enabled'']"
       and msg = "[]", THEN mp, OF hyp, unfolded b]
  have ok: "\<forall>r\<in>set ([CreateSuccessResult kOSVersion ''Windows 10.0.22631 (supported)'']
      @ [CreateSuccessResult kBIOSVirtualization ''BIOS virtualization is enabled'']).
      status r = kSuccess"
    by (simp add: Create_defs)
  have g1: "NvidiaDriverChecker_Check ?H
     \<lparr>version = ''12.7'', is_valid_version = False\<rparr> KeyNotFound ([], 0) =
     (CreateSuccessResult kNvidiaDriver
        ''NVIDIA driver: 550.54, CUDA toolkit: 12.7 (WARNING: CUDA version should be 12.8.x or 12.9.x)'',
      ([HostCommand nvidia_smi_cmd 30], 1))"
    using t [THEN conjunct1] by simp
  have g2: "CheckAllComponents
        \<lparr>component_results =
           [CreateSuccessResult kOSVersion ''Windows 10.0.22631 (supported)'']
           @ fst (NvidiaDriverChecker_Check ?H
                \<lparr>version = ''12.7'', is_valid_version = False\<rparr> KeyNotFound ([], 0))
           # [CreateSuccessResult kBIOSVirtualization ''BIOS virtualization is enabled''],
         reboot_required = False, overall_message = []\<rparr> = 0"
    by (rule t [THEN conjunct2, THEN conjunct2, THEN mp, OF ok])
  show ?thesis
    by (rule conjI [OF g1 g2])
qed

text \<open>
  The claim as it stands fails in the scenario of the specification: OS build 22631, the GPU
  NVIDIA GeForce RTX 4070, a driver query that succeeds and the toolkit version 12.7. The
  driver result is Success, not Warning, and the overall exit code is 0, not 3.
\<close>

theorem NvidiaDriverChecker_Check_not_Warning_counterexample:
  "status (fst (NvidiaDriverChecker_Check
       (table_host [(HostCommand nvidia_smi_cmd 30, 0, ''550.54'' @ [newline])])
       \<lparr>version = ''12.7'', is_valid_version = False\<rparr> KeyNotFound ([], 0))) = kSuccess
   \<and> status (fst (NvidiaDriverChecker_Check
       (table_host [(HostCommand nvidia_smi_cmd 30, 0, ''550.54'' @ [newline])])
       \<lparr>version = ''12.7'', is_valid_version = False\<rparr> KeyNotFound ([], 0))) \<noteq> kWarning
   \<and> NvidiaGPUChecker_Check
        \<lparr>is_nvidia = True, name = ''NVIDIA GeForce RTX 4070'', is_blackwell_series = False\<rparr>
       = Inr (CreateSuccessResult kNvidiaGPU
           ''Compatible NVIDIA GPU detected: NVIDIA GeForce RTX 4070 (will use hopper image)'')
   \<and> CheckAllComponents
        \<lparr>component_results =
           [OSVersionChecker_Check 0
              \<lparr>dwMajorVersion = 10, dwMinorVersion = 0, dwBuildNumber = 22631\<rparr>,
            CreateSuccessResult kNvidiaGPU
              ''Compatible NVIDIA GPU detected: NVIDIA GeForce RTX 4070 (will use hopper image)'',
            fst (NvidiaDriverChecker_Check
              (table_host [(HostCommand nvidia_smi_cmd 30, 0, ''550.54'' @ [newline])])
              \<lparr>version = ''12.7'', is_valid_version = False\<rparr> KeyNotFound ([], 0))],
         reboot_required = False, overall_message = []\<rparr> = 0
   \<and> CheckAllComponents
        \<lparr>component_results =
           [OSVersionChecker_Check 0
              \<lparr>dwMajorVersion = 10, dwMinorVersion = 0, dwBuildNumber = 22631\<rparr>,
            CreateSuccessResult kNvidiaGPU
              ''Compatible NVIDIA GPU detected: NVIDIA GeForce RTX 4070 (will use hopper image)'',
            fst (NvidiaDriverChecker_Check
              (table_host [(HostCommand nvidia_smi_cmd 30, 0, ''550.54'' @ [newline])])
              \<lparr>version = ''12.7'', is_valid_version = False\<rparr> KeyNotFound ([], 0))],
         reboot_required = False, overall_message = []\<rparr> \<noteq> 3"
proof -
  have g: "IsGPUMeetsMinimumRequirement ''NVIDIA GeForce RTX 4070'' = Inr True"
    by code_simp
  have gpu: "NvidiaGPUChecker_Check
        \<lparr>is_nvidia = True, name = ''NVIDIA GeForce RTX 4070'', is_blackwell_series = False\<rparr>
       = Inr (CreateSuccessResult kNvidiaGPU
           ''Compatible NVIDIA GPU detected: NVIDIA GeForce RTX 4070 (will use hopper image)'')"
    by (simp add: NvidiaGPUChecker_Check_def g)
  have drv: "NvidiaDriverChecker_Check
       (table_host [(HostCommand nvidia_smi_cmd 30, 0, ''550.54'' @ [newline])])
       \<lparr>version = ''12.7'', is_valid_version = False\<rparr> KeyNotFound ([], 0)
      = (CreateSuccessResult kNvidiaDriver
        ''NVIDIA driver: 550.54, CUDA toolkit: 12.7 (WARNING: CUDA version should be 12.8.x or 12.9.x)'',
      ([HostCommand nvidia_smi_cmd 30], 1))"
    by (simp add: NvidiaDriverChecker_Check_def exec_pair table_host_def driver_message_def
        is_space_def special_chars)
  have os: "status (OSVersionChecker_Check 0
      \<lparr>dwMajorVersion = 10, dwMinorVersion = 0, dwBuildNumber = 22631\<rparr>) = kSuccess"
    by (simp add: OSVersionChecker_Check_def is_supported_def Create_defs)
  show ?thesis
    unfolding drv gpu using os
    by (simp add: CheckAllComponents_def Create_defs)
qed

subsection \<open>BIOSVirtualizationChecker::Check\<close>

text \<open>
  C7, as amended. When the system-information query gives no determination (it fails, or its
  output has neither the line that says Yes nor the line that says No) and the status query of
  the subsystem platform gives none either (it fails, or its output has none of the failure
  phrases), Check returns Success, never Failed, after running both commands in this order.
  The message says that the state could not be verified only when the status query fails;
  when it exits with zero and has no failure phrase, the message is that BIOS virtualization
  is enabled.
\<close>

theorem BIOSVirtualizationChecker_Check_undetermined:
  "orc (PowerShell ''systeminfo'') w = ((systeminfo_code, systeminfo_output), w1)
   \<and> orc (PowerShell ''wsl --status'') w1 = ((wsl_status_code, wsl_status_output), w2)
   \<and> systeminfo_undetermined systeminfo_code systeminfo_output
   \<and> wsl_status_undetermined wsl_status_code wsl_status_output
   \<longrightarrow> BIOSVirtualizationChecker_Check orc (tr, w) =
        (CreateSuccessResult kBIOSVirtualization
           (if wsl_status_code = 0 then ''BIOS virtualization is enabled''
            else ''BIOS virtualization status check completed (unable to verify definitively)''),
         (tr @ [PowerShell ''systeminfo'', PowerShell ''wsl --status''], w2))
       \<and> status (fst (BIOSVirtualizationChecker_Check orc (tr, w))) = kSuccess
       \<and> status (fst (BIOSVirtualizationChecker_Check orc (tr, w))) \<noteq> kFailed"
proof (intro impI)
  assume a: "orc (PowerShell ''systeminfo'') w = ((systeminfo_code, systeminfo_output), w1)
   \<and> orc (PowerShell ''wsl --status'') w1 = ((wsl_status_code, wsl_status_output), w2)
   \<and> systeminfo_undetermined systeminfo_code systeminfo_output
   \<and> wsl_status_undetermined wsl_status_code wsl_status_output"
  then have o1: "orc (PowerShell ''systeminfo'') w = ((systeminfo_code, systeminfo_output), w1)"
    and o2: "orc (PowerShell ''wsl --status'') w1 = ((wsl_status_code, wsl_status_output), w2)"
    and u1: "systeminfo_undetermined systeminfo_code systeminfo_output"
    and u2: "wsl_status_undetermined wsl_status_code wsl_status_output"
    by blast+
  have first: "BIOSVirtualizationChecker_Check orc (tr, w) =
      wsl_status_check orc (tr @ [PowerShell ''systeminfo''], w1)"
    using o1 u1
    by (auto simp: BIOSVirtualizationChecker_Check_def exec_pair systeminfo_undetermined_def)
  have second: "wsl_status_check orc (tr @ [PowerShell ''systeminfo''], w1) =
        (CreateSuccessResult kBIOSVirtualization
           (if wsl_status_code = 0 then ''BIOS virtualization is enabled''
            else ''BIOS virtualization status check completed (unable to verify definitively)''),
         (tr @ [PowerShell ''systeminfo'', PowerShell ''wsl --status''], w2))"
    using o2 u2
    by (auto simp: wsl_status_check_def exec_pair wsl_status_undetermined_def
        wsl_failure_phrase_def)
  show "BIOSVirtualizationChecker_Check orc (tr, w) =
        (CreateSuccessResult kBIOSVirtualization
           (if wsl_status_code = 0 then ''BIOS virtualization is enabled''
            else ''BIOS virtualization status check completed (unable to verify definitively)''),
         (tr @ [PowerShell ''systeminfo'', PowerShell ''wsl --status''], w2))
       \<and> status (fst (BIOSVirtualizationChecker_Check orc (tr, w))) = kSuccess
       \<and> status (fst (BIOSVirtualizationChecker_Check orc (tr, w))) \<noteq> kFailed"
    unfolding first second by (simp add: CreateSuccessResult_def)
qed

theorem BIOSVirtualizationChecker_Check_undetermined_witness:
  "BIOSVirtualizationChecker_Check
     (table_host [(PowerShell ''systeminfo'', 0, ''Host Name: PC''),
                  (PowerShell ''wsl --status'', 1, [])]) ([], 0) =
     (CreateSuccessResult kBIOSVirtualization
        ''BIOS virtualization status check completed (unable to verify definitively)'',
      ([PowerShell ''systeminfo'', PowerShell ''wsl --status''], 2))
   \<and> BIOSVirtualizationChecker_Check
     (table_host [(PowerShell ''systeminfo'', 1, []),
                  (PowerShell ''wsl --status'', 0, ''Default Version: 2'')]) ([], 0) =
     (CreateSuccessResult kBIOSVirtualization ''BIOS virtualization is enabled'',
      ([PowerShell ''systeminfo'', PowerShell ''wsl --status''], 2))"
proof -
  let ?H = "table_host [(PowerShell ''systeminfo'', 0, ''Host Name: PC''),
                        (PowerShell ''wsl --status'', 1, [])]"
  let ?G = "table_host [(PowerShell ''systeminfo'', 1, []),
                        (PowerShell ''wsl --status'', 0, ''Default Version: 2'')]"
  have hyp1: "?H (PowerShell ''systeminfo'') 0 = ((0, ''Host Name: PC''), 1)
   \<and> ?H (PowerShell ''wsl --status'') 1 = ((1, []), 2)
   \<and> systeminfo_undetermined 0 ''Host Name: PC''
   \<and> wsl_status_undetermined 1 []"
    by (simp add: table_host_def systeminfo_undetermined_def wsl_status_undetermined_def)
  have hyp2: "?G (PowerShell ''systeminfo'') 0 = ((1, []), 1)
   \<and> ?G (PowerShell ''wsl --status'') 1 = ((0, ''Default Version: 2''), 2)
   \<and> systeminfo_undetermined 1 []
   \<and> wsl_status_undetermined 0 ''Default Version: 2''"
    by (simp add: table_host_def systeminfo_undetermined_def wsl_status_undetermined_def
        wsl_failure_phrase_def)
  have g1: "BIOSVirtualizationChecker_Check ?H ([], 0) =
     (CreateSuccessResult kBIOSVirtualization
        ''BIOS virtualization status check completed (unable to verify definitively)'',
      ([PowerShell ''systeminfo'', PowerShell ''wsl --status''], 2))"
    using BIOSVirtualizationChecker_Check_undetermined
        [where orc = ?H and w = 0 and tr = "[]", THEN mp, OF hyp1, THEN conjunct1]
    by simp
  have g2: "BIOSVirtualizationChecker_Check ?G ([], 0) =
     (CreateSuccessResult kBIOSVirtualization ''BIOS virtualization is enabled'',
      ([PowerShell ''systeminfo'', PowerShell ''wsl --status''], 2))"
    using BIOSVirtualizationChecker_Check_undetermined
        [where orc = ?G and w = 0 and tr = "[]", THEN mp, OF hyp2, THEN conjunct1]
    by simp
  show ?thesis
    by (rule conjI [OF g1 g2])
qed

text \<open>
  The claim as it stands fails when the status query exits with zero and has no failure
  phrase: neither method has determined the state, and the message of the Success result is
  that BIOS virtualization is enabled, not that the state could not be verified.
\<close>

theorem BIOSVirtualizationChecker_Check_enabled_counterexample:
  "systeminfo_undetermined 0 ''Host Name: PC''
   \<and> wsl_status_undetermined 0 ''Default Version: 2''
   \<and> BIOSVirtualizationChecker_Check
        (table_host [(PowerShell ''systeminfo'', 0, ''Host Name: PC''),
                     (PowerShell ''wsl --status'', 0, ''Default Version: 2'')]) ([], 0) =
       (CreateSuccessResult kBIOSVirtualization ''BIOS virtualization is enabled'',
        ([PowerShell ''systeminfo'', PowerShell ''wsl --status''], 2))
   \<and> message (fst (BIOSVirtualizationChecker_Check
        (table_host [(PowerShell ''systeminfo'', 0, ''Host Name: PC''),
                     (PowerShell ''wsl --status'', 0, ''Default Version: 2'')]) ([], 0)))
       \<noteq> ''BIOS virtualization status check completed (unable to verify definitively)''"
  by (simp add: BIOSVirtualizationChecker_Check_def wsl_status_check_def exec_pair
      table_host_def systeminfo_undetermined_def wsl_status_undetermined_def
      wsl_failure_phrase_def CreateSuccessResult_def)

subsection \<open>ParallaxProjectInstaller::Check\<close>






subsection \<open>IsGPUMeetsMinimumRequirement\<close>

lemma rtx_decision_policy:
  "(case rtx_decision s m x of Some b \<Rightarrow> b | None \<Rightarrow> False) = rtx_policy s m x"
  by (auto simp: rtx_decision_def rtx_policy_def)

lemma IsGPU_high_end:
  "list_ex (has_substr (map toupper gpu_name)) high_end_cards \<Longrightarrow>
   IsGPUMeetsMinimumRequirement gpu_name = Inr True"
  by (simp add: IsGPUMeetsMinimumRequirement_def)

lemma IsGPU_rtx_step:
  assumes "reaches_rtx_step gpu_name"
  shows "IsGPUMeetsMinimumRequirement gpu_name =
     (case regex_search_rtx (map toupper gpu_name) of
        None \<Rightarrow> Inr False
      | Some (g1, g2, g3) \<Rightarrow>
          (case stoi g1 of
             Inl e \<Rightarrow> Inl e
           | Inr series \<Rightarrow>
               (case stoi g2 of
                  Inl e \<Rightarrow> Inl e
                | Inr model \<Rightarrow> Inr (rtx_policy series model g3))))"
proof -
  from assms have a: "\<not> list_ex (has_substr (map toupper gpu_name)) high_end_cards"
    and b: "has_substr (map toupper gpu_name) ''GEFORCE'' \<or> has_substr (map toupper gpu_name) ''RTX''"
    by (simp_all add: reaches_rtx_step_def Let_def)
  show ?thesis
  proof (cases "regex_search_rtx (map toupper gpu_name)")
    case None
    with a b show ?thesis
      by (simp add: IsGPUMeetsMinimumRequirement_def geforce_block_def)
  next
    case (Some m)
    obtain g1 g2 g3 where m: "m = (g1, g2, g3)" by (cases m)
    show ?thesis
    proof (cases "stoi g1")
      case (Inl e)
      with a b Some m show ?thesis
        by (simp add: IsGPUMeetsMinimumRequirement_def geforce_block_def)
    next
      case s: (Inr series)
      show ?thesis
      proof (cases "stoi g2")
        case (Inl e)
        with a b Some m s show ?thesis
          by (simp add: IsGPUMeetsMinimumRequirement_def geforce_block_def)
      next
        case (Inr model)
        have "(case rtx_decision series model g3 of None \<Rightarrow> Inr False | Some b \<Rightarrow> Inr b)
            = (Inr (rtx_policy series model g3) :: stoi_error + bool)"
          using rtx_decision_policy [of series model g3]
          by (cases "rtx_decision series model g3") simp_all
        with a b Some m s Inr show ?thesis
          by (simp add: IsGPUMeetsMinimumRequirement_def geforce_block_def split: option.splits)
      qed
    qed
  qed
qed

lemma IsGPUMeetsMinimumRequirement_policy:
  assumes "reaches_rtx_step gpu_name"
  shows "regex_search_rtx (map toupper gpu_name) = None
           \<Longrightarrow> IsGPUMeetsMinimumRequirement gpu_name = Inr False"
    and "regex_search_rtx (map toupper gpu_name) = Some (g1, g2, g3)
           \<Longrightarrow> stoi g1 = Inr series \<Longrightarrow> stoi g2 = Inr model
           \<Longrightarrow> IsGPUMeetsMinimumRequirement gpu_name = Inr (rtx_policy series model g3)"
  by (simp_all add: IsGPU_rtx_step [OF assms])

lemma has_substr_iff: "has_substr t s \<longleftrightarrow> (\<exists>p r. t = p @ s @ r)"
proof (induction t)
  case Nil
  then show ?case by auto
next
  case (Cons c t)
  show ?case
  proof
    assume "has_substr (c # t) s"
    then consider "prefix s (c # t)" | "has_substr t s" by auto
    then show "\<exists>p r. c # t = p @ s @ r"
    proof cases
      case 1
      then obtain r where "c # t = s @ r" by (auto simp: prefix_def)
      then have "c # t = [] @ s @ r" by simp
      then show ?thesis by blast
    next
      case 2
      with Cons.IH obtain p r where "t = p @ s @ r" by blast
      then have "c # t = (c # p) @ s @ r" by simp
      then show ?thesis by blast
    qed
  next
    assume "\<exists>p r. c # t = p @ s @ r"
    then obtain p r where e: "c # t = p @ s @ r" by blast
    show "has_substr (c # t) s"
    proof (cases p)
      case Nil
      with e have "prefix s (c # t)" by (simp add: prefix_def)
      then show ?thesis by simp
    next
      case (Cons a p')
      with e have "t = p' @ s @ r" by simp
      with Cons.IH have "has_substr t s" by blast
      then show ?thesis by simp
    qed
  qed
qed

lemma toupper_idem: "toupper (toupper c) = toupper c"
proof (cases "97 \<le> (of_char c :: nat) \<and> (of_char c :: nat) \<le> 122")
  case True
  then have "(of_char c - 32 :: nat) < 256" by arith
  then have "(of_char c - 32 :: nat) mod 256 = of_char c - 32" by (rule mod_less)
  then have o: "(of_char (char_of (of_char c - 32 :: nat)) :: nat) = of_char c - 32" by simp
  from True have t: "toupper c = char_of (of_char c - 32 :: nat)"
    by (simp add: toupper_def)
  from True have "\<not> (97 \<le> (of_char c - 32 :: nat))" by arith
  then show ?thesis
    unfolding t by (simp add: toupper_def o)
next
  case False
  then have "toupper c = c" by (auto simp: toupper_def)
  then show ?thesis by simp
qed

lemma map_toupper_idem: "map toupper (map toupper xs) = map toupper xs"
  by (simp add: toupper_idem)

lemma is_digit_not_space: "is_digit c \<Longrightarrow> \<not> is_space c"
  by (auto simp: is_digit_def is_space_def special_chars)

lemma is_space_not_digit: "is_space c \<Longrightarrow> \<not> is_digit c"
  by (auto simp: is_digit_def is_space_def special_chars)

lemma map_fixed_append:
  "map f (a @ b) = a @ b \<Longrightarrow> map f a = a \<and> map f b = b"
  by simp

lemma starts_with_icase_upper:
  assumes "map toupper s = s"
  shows "starts_with_icase pat s \<longleftrightarrow> prefix pat s"
proof -
  have t: "map toupper (take (length pat) s) = take (length pat) s"
    using assms by (metis take_map)
  have "(length pat \<le> length s \<and> take (length pat) s = pat) \<longleftrightarrow> prefix pat s"
  proof
    assume a: "length pat \<le> length s \<and> take (length pat) s = pat"
    have "s = take (length pat) s @ drop (length pat) s" by simp
    with a have "s = pat @ drop (length pat) s" by simp
    then show "prefix pat s" by (rule prefixI)
  next
    assume "prefix pat s"
    then obtain z where "s = pat @ z" by (auto simp: prefix_def)
    then show "length pat \<le> length s \<and> take (length pat) s = pat" by simp
  qed
  then show ?thesis
    by (simp add: starts_with_icase_def t)
qed

lemma length_ge_3: "3 \<le> length r \<Longrightarrow> \<exists>a b c rr. r = a # b # c # rr"
  by (auto simp: numeral_3_eq_3 Suc_le_length_iff)

lemma starts_with_RTX_D:
  assumes "starts_with_icase ''RTX'' r"
  shows "\<exists>r0 r1 r2 rr. r = r0 # r1 # r2 # rr
     \<and> toupper r0 = CHR ''R'' \<and> toupper r1 = CHR ''T'' \<and> toupper r2 = CHR ''X''"
proof -
  from assms have "3 \<le> length r" by (simp add: starts_with_icase_def)
  then obtain a b c rr where r: "r = a # b # c # rr"
    using length_ge_3 by blast
  with assms show ?thesis by (simp add: starts_with_icase_def)
qed

lemma not_match_before:
  assumes "\<not> has_substr (map toupper (c # p)) ''RTX''" and "starts_with_icase ''RTX'' r"
  shows "\<not> starts_with_icase ''RTX'' (c # p @ r)"
proof
  assume m: "starts_with_icase ''RTX'' (c # p @ r)"
  from starts_with_RTX_D [OF assms(2)] obtain r0 r1 r2 rr where r: "r = r0 # r1 # r2 # rr"
    and u: "toupper r0 = CHR ''R''" "toupper r1 = CHR ''T''" "toupper r2 = CHR ''X''"
    by blast
  show False
  proof (cases p)
    case Nil
    with m r u show False by (simp add: starts_with_icase_def)
  next
    case (Cons a p')
    note p = Cons
    show False
    proof (cases p')
      case Nil
      with m r u p show False by (simp add: starts_with_icase_def)
    next
      case (Cons b p'')
      with m p have "prefix ''RTX'' (map toupper (c # p))"
        by (simp add: starts_with_icase_def)
      with assms(1) show False by simp
    qed
  qed
qed

lemma regex_search_skip:
  assumes "\<not> has_substr (map toupper p) ''RTX''" and "starts_with_icase ''RTX'' r"
  shows "regex_search_rtx (p @ r) = regex_search_rtx r"
  using assms(1)
proof (induction p)
  case Nil
  then show ?case by simp
next
  case (Cons c p)
  from Cons.prems have rest: "\<not> has_substr (map toupper p) ''RTX''" by simp
  have "match_rtx_at (c # p @ r) = None"
    using not_match_before [OF Cons.prems assms(2)] by (simp add: match_rtx_at_def)
  with Cons.IH [OF rest] show ?case by simp
qed

lemma dropWhile_all: "\<forall>c\<in>set ws. P c \<Longrightarrow> dropWhile P (ws @ ys) = dropWhile P ys"
  by (induction ws) simp_all

lemma takeWhile_stop: "rest = [] \<or> \<not> P (hd rest) \<Longrightarrow> takeWhile P rest = []"
  by (cases rest) auto

lemma dropWhile_stop: "rest = [] \<or> \<not> P (hd rest) \<Longrightarrow> dropWhile P rest = rest"
  by (cases rest) auto

lemma takeWhile_run:
  "\<forall>c\<in>set ds. P c \<Longrightarrow> rest = [] \<or> \<not> P (hd rest) \<Longrightarrow> takeWhile P (ds @ rest) = ds"
  by (induction ds) (simp_all add: takeWhile_stop)

lemma dropWhile_run:
  "\<forall>c\<in>set ds. P c \<Longrightarrow> rest = [] \<or> \<not> P (hd rest) \<Longrightarrow> dropWhile P (ds @ rest) = rest"
  by (induction ds) (simp_all add: dropWhile_stop)

lemma match_rtx_at_shape:
  assumes ws: "\<forall>c\<in>set ws. is_space c" and ds: "\<forall>c\<in>set ds. is_digit c"
    and len: "3 \<le> length ds" and rest: "rest = [] \<or> \<not> is_digit (hd rest)"
  shows "match_rtx_at (''RTX'' @ ws @ ds @ rest) =
     Some (take (length ds - 2) ds, drop (length ds - 2) ds, match_suffix rest)"
proof -
  have s: "starts_with_icase ''RTX'' (''RTX'' @ ws @ ds @ rest)"
    by (simp add: starts_with_icase_def toupper_def)
  from len obtain d ds' where d: "ds = d # ds'" by (cases ds) auto
  with ds have "\<not> is_space d" by (simp add: is_digit_not_space)
  with d have "dropWhile is_space (ds @ rest) = ds @ rest" by simp
  with ws have r: "dropWhile is_space (drop 3 (''RTX'' @ ws @ ds @ rest)) = ds @ rest"
    by (simp add: dropWhile_all)
  show ?thesis
    using len
    by (simp only: match_rtx_at_def s r Let_def takeWhile_run [OF ds rest]
        dropWhile_run [OF ds rest] if_True)
qed

lemma regex_search_shape:
  assumes p: "\<not> has_substr (map toupper p) ''RTX''"
    and ws: "\<forall>c\<in>set ws. is_space c" and ds: "\<forall>c\<in>set ds. is_digit c"
    and len: "3 \<le> length ds" and rest: "rest = [] \<or> \<not> is_digit (hd rest)"
  shows "regex_search_rtx (p @ ''RTX'' @ ws @ ds @ rest) =
     Some (take (length ds - 2) ds, drop (length ds - 2) ds, match_suffix rest)"
proof -
  have s: "starts_with_icase ''RTX'' (''RTX'' @ ws @ ds @ rest)"
    by (simp add: starts_with_icase_def toupper_def)
  have "regex_search_rtx (p @ ''RTX'' @ ws @ ds @ rest)
      = regex_search_rtx (''RTX'' @ ws @ ds @ rest)"
    by (rule regex_search_skip [OF p s])
  also have "\<dots> = Some (take (length ds - 2) ds, drop (length ds - 2) ds, match_suffix rest)"
    using match_rtx_at_shape [OF ws ds len rest] by simp
  finally show ?thesis .
qed

lemma match_suffix_TI:
  assumes "\<forall>c\<in>set ws. is_space c"
  shows "match_suffix (ws @ ''TI'' @ rest) = ''TI''"
proof -
  have "dropWhile is_space (ws @ ''TI'' @ rest) = ''TI'' @ rest"
    using assms by (simp add: dropWhile_all is_space_def special_chars)
  then show ?thesis
    by (simp add: match_suffix_def starts_with_icase_def toupper_def)
qed

lemma match_suffix_upper:
  assumes "map toupper s = s"
  shows "match_suffix s =
     (if prefix ''TI'' (dropWhile is_space s) then ''TI''
      else if prefix ''SUPER'' (dropWhile is_space s) then ''SUPER'' else [])"
proof -
  have "map toupper (dropWhile is_space s) = dropWhile is_space s"
    using assms by (metis map_fixed_append takeWhile_dropWhile_id)
  then have i: "\<And>pat. starts_with_icase pat (dropWhile is_space s) \<longleftrightarrow> prefix pat (dropWhile is_space s)"
    by (rule starts_with_icase_upper)
  have t2: "prefix ''TI'' (dropWhile is_space s) \<Longrightarrow> take 2 (dropWhile is_space s) = ''TI''"
    by (auto simp: prefix_def)
  have t5: "prefix ''SUPER'' (dropWhile is_space s)
      \<Longrightarrow> take 5 (dropWhile is_space s) = ''SUPER''"
    by (auto simp: prefix_def)
  show ?thesis
    using t2 t5 by (simp add: match_suffix_def i Let_def)
qed

lemma digit_value_range: "is_digit c \<Longrightarrow> 0 \<le> digit_value c \<and> digit_value c \<le> 9"
  by (auto simp: is_digit_def digit_value_def)

lemma is_digit_not_sign: "is_digit c \<Longrightarrow> c \<noteq> CHR ''-'' \<and> c \<noteq> CHR ''+''"
  by (auto simp: is_digit_def)

lemma stoi_two_digits:
  assumes "is_digit d1" and "is_digit d2"
  shows "stoi [d1, d2] = Inr (digit_value d1 * 10 + digit_value d2)"
  using assms digit_value_range [OF assms(1)] digit_value_range [OF assms(2)]
    is_digit_not_sign [OF assms(1)]
  by (simp add: stoi_def is_digit_not_space INT_MAX_def INT_MIN_def)

lemma stoi_30: "stoi ''30'' = Inr 30" and stoi_40: "stoi ''40'' = Inr 40"
  and stoi_60: "stoi ''60'' = Inr 60"
  by (simp_all add: stoi_def is_space_def is_digit_def special_chars digit_value_def
      INT_MAX_def INT_MIN_def)

lemma upper_parts:
  assumes "map toupper gpu_name = a @ b"
  shows "map toupper a = a" and "map toupper b = b"
proof -
  have "map toupper (a @ b) = map toupper (map toupper gpu_name)"
    by (simp only: assms)
  also have "\<dots> = map toupper gpu_name" by (rule map_toupper_idem)
  also have "\<dots> = a @ b" by (rule assms)
  finally have f: "map toupper (a @ b) = a @ b" .
  show "map toupper a = a"
    by (rule map_fixed_append [OF f, THEN conjunct1])
  show "map toupper b = b"
    by (rule map_fixed_append [OF f, THEN conjunct2])
qed

lemma IsGPU_shape:
  assumes na: "\<not> list_ex (has_substr (map toupper gpu_name)) high_end_cards"
    and shape: "map toupper gpu_name = p @ ''RTX'' @ ws @ ds @ rest"
    and p: "\<not> has_substr p ''RTX''"
    and ws: "\<forall>c\<in>set ws. is_space c" and ds: "\<forall>c\<in>set ds. is_digit c"
    and len: "3 \<le> length ds" and rest: "rest = [] \<or> \<not> is_digit (hd rest)"
  shows "IsGPUMeetsMinimumRequirement gpu_name =
     (case stoi (take (length ds - 2) ds) of
        Inl e \<Rightarrow> Inl e
      | Inr series \<Rightarrow>
          (case stoi (drop (length ds - 2) ds) of
             Inl e \<Rightarrow> Inl e
           | Inr model \<Rightarrow> Inr (rtx_policy series model (match_suffix rest))))"
proof -
  have "map toupper p = p"
    using upper_parts(1) [OF shape] .
  with p have p': "\<not> has_substr (map toupper p) ''RTX''" by simp
  have "has_substr (map toupper gpu_name) ''RTX''"
    unfolding shape has_substr_iff by blast
  with na have r: "reaches_rtx_step gpu_name"
    by (simp add: reaches_rtx_step_def)
  show ?thesis
    unfolding IsGPU_rtx_step [OF r] shape regex_search_shape [OF p' ws ds len rest]
    by simp
qed

lemma no_TI_in_suffix:
  assumes "map toupper rest = rest" and "\<not> prefix ''TI'' (dropWhile is_space rest)"
  shows "\<not> has_substr (match_suffix rest) ''TI''"
  using assms(2) by (simp add: match_suffix_upper [OF assms(1)])

text \<open>
  C8, as amended. The classification is a function of the name alone. Writing \<open>U\<close> for the
  name in upper case: a name whose \<open>U\<close> contains a substring of the allowlist is accepted,
  whatever else it contains. Otherwise the first RTX of \<open>U\<close> decides: when it is followed
  by white space (possibly none) and the digits 3060, and then by white space (possibly none)
  and TI, the name is accepted; when the digits 3060 are followed by no further digit and not
  by TI, the name is rejected; when it is followed by the four digits 40xy with xy below 60 and
  no further digit, the name is rejected.
\<close>

theorem IsGPUMeetsMinimumRequirement_classes:
  "(list_ex (has_substr (map toupper gpu_name)) high_end_cards
      \<longrightarrow> IsGPUMeetsMinimumRequirement gpu_name = Inr True)
   \<and> (\<not> list_ex (has_substr (map toupper gpu_name)) high_end_cards
      \<and> map toupper gpu_name = p @ ''RTX'' @ ws @ ''3060'' @ ws' @ ''TI'' @ rest
      \<and> \<not> has_substr p ''RTX'' \<and> (\<forall>c\<in>set ws. is_space c) \<and> (\<forall>c\<in>set ws'. is_space c)
      \<longrightarrow> IsGPUMeetsMinimumRequirement gpu_name = Inr True)
   \<and> (\<not> list_ex (has_substr (map toupper gpu_name)) high_end_cards
      \<and> map toupper gpu_name = p @ ''RTX'' @ ws @ ''3060'' @ rest
      \<and> \<not> has_substr p ''RTX'' \<and> (\<forall>c\<in>set ws. is_space c)
      \<and> (rest = [] \<or> \<not> is_digit (hd rest))
      \<and> \<not> prefix ''TI'' (dropWhile is_space rest)
      \<longrightarrow> IsGPUMeetsMinimumRequirement gpu_name = Inr False)
   \<and> (\<not> list_ex (has_substr (map toupper gpu_name)) high_end_cards
      \<and> map toupper gpu_name = p @ ''RTX'' @ ws @ [CHR ''4'', CHR ''0'', d1, d2] @ rest
      \<and> \<not> has_substr p ''RTX'' \<and> (\<forall>c\<in>set ws. is_space c)
      \<and> is_digit d1 \<and> is_digit d2 \<and> digit_value d1 * 10 + digit_value d2 < 60
      \<and> (rest = [] \<or> \<not> is_digit (hd rest))
      \<longrightarrow> IsGPUMeetsMinimumRequirement gpu_name = Inr False)"
proof (intro conjI impI; (elim conjE)?)
  assume "list_ex (has_substr (map toupper gpu_name)) high_end_cards"
  then show "IsGPUMeetsMinimumRequirement gpu_name = Inr True"
    by (rule IsGPU_high_end)
next
  assume na: "\<not> list_ex (has_substr (map toupper gpu_name)) high_end_cards"
    and shape: "map toupper gpu_name = p @ ''RTX'' @ ws @ ''3060'' @ ws' @ ''TI'' @ rest"
    and p: "\<not> has_substr p ''RTX''" and ws: "\<forall>c\<in>set ws. is_space c"
    and ws': "\<forall>c\<in>set ws'. is_space c"
  have ds: "\<forall>c\<in>set ''3060''. is_digit c" by (simp add: is_digit_def)
  have len: "3 \<le> length ''3060''" by simp
  have rest: "ws' @ ''TI'' @ rest = [] \<or> \<not> is_digit (hd (ws' @ ''TI'' @ rest))"
  proof (cases ws')
    case Nil
    then show ?thesis by (simp add: is_digit_def)
  next
    case (Cons a l)
    with ws' have "is_space a" by simp
    then have "\<not> is_digit a" by (rule is_space_not_digit)
    with Cons show ?thesis by simp
  qed
  show "IsGPUMeetsMinimumRequirement gpu_name = Inr True"
    unfolding IsGPU_shape [OF na shape p ws ds len rest] match_suffix_TI [OF ws']
    by (simp add: stoi_30 stoi_60 rtx_policy_def)
next
  assume na: "\<not> list_ex (has_substr (map toupper gpu_name)) high_end_cards"
    and shape: "map toupper gpu_name = p @ ''RTX'' @ ws @ ''3060'' @ rest"
    and p: "\<not> has_substr p ''RTX''" and ws: "\<forall>c\<in>set ws. is_space c"
    and rest: "rest = [] \<or> \<not> is_digit (hd rest)"
    and noti: "\<not> prefix ''TI'' (dropWhile is_space rest)"
  have ds: "\<forall>c\<in>set ''3060''. is_digit c" by (simp add: is_digit_def)
  have len: "3 \<le> length ''3060''" by simp
  have "map toupper gpu_name = (p @ ''RTX'' @ ws @ ''3060'') @ rest"
    by (simp only: shape append_assoc)
  then have "map toupper rest = rest" by (rule upper_parts(2))
  then have "\<not> has_substr (match_suffix rest) ''TI''"
    using noti by (rule no_TI_in_suffix)
  then show "IsGPUMeetsMinimumRequirement gpu_name = Inr False"
    unfolding IsGPU_shape [OF na shape p ws ds len rest]
    by (simp add: stoi_30 stoi_60 rtx_policy_def)
next
  assume na: "\<not> list_ex (has_substr (map toupper gpu_name)) high_end_cards"
    and shape: "map toupper gpu_name = p @ ''RTX'' @ ws @ [CHR ''4'', CHR ''0'', d1, d2] @ rest"
    and p: "\<not> has_substr p ''RTX''" and ws: "\<forall>c\<in>set ws. is_space c"
    and d1: "is_digit d1" and d2: "is_digit d2"
    and small: "digit_value d1 * 10 + digit_value d2 < 60"
    and rest: "rest = [] \<or> \<not> is_digit (hd rest)"
  have "is_digit CHR ''4''" and "is_digit CHR ''0''" by (simp_all add: is_digit_def)
  with d1 d2 have ds: "\<forall>c\<in>set [CHR ''4'', CHR ''0'', d1, d2]. is_digit c"
    by simp
  have len: "3 \<le> length [CHR ''4'', CHR ''0'', d1, d2]" by simp
  show "IsGPUMeetsMinimumRequirement gpu_name = Inr False"
    unfolding IsGPU_shape [OF na shape p ws ds len rest]
    using small by (simp add: stoi_40 stoi_two_digits [OF d1 d2] rtx_policy_def)
qed

theorem IsGPUMeetsMinimumRequirement_classes_witness:
  "IsGPUMeetsMinimumRequirement ''NVIDIA A100-SXM4-40GB'' = Inr True
   \<and> IsGPUMeetsMinimumRequirement ''NVIDIA GeForce RTX 3060 Ti'' = Inr True
   \<and> IsGPUMeetsMinimumRequirement ''NVIDIA GeForce RTX 3060'' = Inr False
   \<and> IsGPUMeetsMinimumRequirement ''NVIDIA GeForce RTX 4050 Laptop GPU'' = Inr False"
proof -
  have h1: "list_ex (has_substr (map toupper ''NVIDIA A100-SXM4-40GB'')) high_end_cards"
    by code_simp
  have h2: "\<not> list_ex (has_substr (map toupper ''NVIDIA GeForce RTX 3060 Ti'')) high_end_cards
      \<and> map toupper ''NVIDIA GeForce RTX 3060 Ti''
          = ''NVIDIA GEFORCE '' @ ''RTX'' @ '' '' @ ''3060'' @ '' '' @ ''TI'' @ []
      \<and> \<not> has_substr ''NVIDIA GEFORCE '' ''RTX''
      \<and> (\<forall>c\<in>set '' ''. is_space c) \<and> (\<forall>c\<in>set '' ''. is_space c)"
    by code_simp
  have h3: "\<not> list_ex (has_substr (map toupper ''NVIDIA GeForce RTX 3060'')) high_end_cards
      \<and> map toupper ''NVIDIA GeForce RTX 3060'' = ''NVIDIA GEFORCE '' @ ''RTX'' @ '' '' @ ''3060'' @ []
      \<and> \<not> has_substr ''NVIDIA GEFORCE '' ''RTX''
      \<and> (\<forall>c\<in>set '' ''. is_space c)
      \<and> (([]::string) = [] \<or> \<not> is_digit (hd []))
      \<and> \<not> prefix ''TI'' (dropWhile is_space [])"
    by code_simp
  have h4: "\<not> list_ex (has_substr (map toupper ''NVIDIA GeForce RTX 4050 Laptop GPU''))
          high_end_cards
      \<and> map toupper ''NVIDIA GeForce RTX 4050 Laptop GPU''
          = ''NVIDIA GEFORCE '' @ ''RTX'' @ '' '' @ [CHR ''4'', CHR ''0'', CHR ''5'', CHR ''0'']
            @ '' LAPTOP GPU''
      \<and> \<not> has_substr ''NVIDIA GEFORCE '' ''RTX''
      \<and> (\<forall>c\<in>set '' ''. is_space c)
      \<and> is_digit CHR ''5'' \<and> is_digit CHR ''0''
      \<and> digit_value CHR ''5'' * 10 + digit_value CHR ''0'' < 60
      \<and> ('' LAPTOP GPU'' = [] \<or> \<not> is_digit (hd '' LAPTOP GPU''))"
    by code_simp
  note t1 = IsGPUMeetsMinimumRequirement_classes
    [where gpu_name = "''NVIDIA A100-SXM4-40GB''", THEN conjunct1, THEN mp, OF h1]
  note t2 = IsGPUMeetsMinimumRequirement_classes
    [where gpu_name = "''NVIDIA GeForce RTX 3060 Ti''" and p = "''NVIDIA GEFORCE ''"
       and ws = "'' ''" and ws' = "'' ''" and rest = "[]",
     THEN conjunct2, THEN conjunct1, THEN mp, OF h2]
  note t3 = IsGPUMeetsMinimumRequirement_classes
    [where gpu_name = "''NVIDIA GeForce RTX 3060''" and p = "''NVIDIA GEFORCE ''"
       and ws = "'' ''" and rest = "[]",
     THEN conjunct2, THEN conjunct2, THEN conjunct1, THEN mp, OF h3]
  note t4 = IsGPUMeetsMinimumRequirement_classes
    [where gpu_name = "''NVIDIA GeForce RTX 4050 Laptop GPU''" and p = "''NVIDIA GEFORCE ''"
       and ws = "'' ''" and ?d1.0 = "CHR ''5''" and ?d2.0 = "CHR ''0''"
       and rest = "'' LAPTOP GPU''",
     THEN conjunct2, THEN conjunct2, THEN conjunct2, THEN mp, OF h4]
  show ?thesis
    by (intro conjI t1 t2 t3 t4)
qed

text \<open>
  The claim as it stands fails three times: a name that contains 3060 Ti without RTX before it
  is rejected; a name that contains 3060, no Ti, and a substring of the allowlist is accepted;
  and a name that matches the RTX pattern as series 40 with model 50 and contains a substring
  of the allowlist is accepted.
\<close>

theorem IsGPUMeetsMinimumRequirement_substring_counterexample:
  "has_substr (map toupper ''NVIDIA GeForce 3060 Ti'') ''3060 TI''
   \<and> IsGPUMeetsMinimumRequirement ''NVIDIA GeForce 3060 Ti'' = Inr False
   \<and> has_substr (map toupper ''NVIDIA RTX A3060'') ''3060''
   \<and> \<not> has_substr (map toupper ''NVIDIA RTX A3060'') ''TI''
   \<and> IsGPUMeetsMinimumRequirement ''NVIDIA RTX A3060'' = Inr True
   \<and> regex_search_rtx (map toupper ''Quadro RTX 4050'') = Some (''40'', ''50'', [])
   \<and> IsGPUMeetsMinimumRequirement ''Quadro RTX 4050'' = Inr True"
  by code_simp

text \<open>
  C1 at a name whose series does not fit a 32-bit \<^verbatim>\<open>int\<close>. The name reaches the GeForce/RTX
  step, the pattern gives the series 9999999999 and the model 99, which satisfy the policy
  (series at least 50); \<^verbatim>\<open>std::stoi\<close> throws \<^verbatim>\<open>std::out_of_range\<close> on the series and
  the function returns nothing.
\<close>

theorem IsGPUMeetsMinimumRequirement_series_out_of_range:
  "reaches_rtx_step ''NVIDIA GeForce RTX 999999999999''
   \<and> regex_search_rtx (map toupper ''NVIDIA GeForce RTX 999999999999'')
       = Some (''9999999999'', ''99'', [])
   \<and> rtx_policy 9999999999 99 []
   \<and> IsGPUMeetsMinimumRequirement ''NVIDIA GeForce RTX 999999999999'' = Inl out_of_range"
  by code_simp

end
